theory Spec2Isabelle
  imports Main "HOL-Library.Word"
begin

unbundle bit_operations_syntax

section \<open>sPAPR capabilities (hw/ppc/spapr\_caps.c): data model\<close>

type_synonym u8 = "8 word"
type_synonym u32 = "32 word"
type_synonym u64 = "64 word"

subsection \<open>Messages, errors and abnormal termination\<close>

text \<open>
  An \<^verbatim>\<open>Error\<close> object and a line given to \<^verbatim>\<open>error_report\<close> / \<^verbatim>\<open>warn_report\<close> are kept
  as the format string and the arguments of the call that made them.
\<close>

datatype fmt_arg = ArgStr string | ArgInt int

datatype Error = error_setg string "fmt_arg list"

datatype report = error_report string "fmt_arg list" | warn_report string "fmt_arg list"

text \<open>
  Ways of not returning normally: a failed \<^verbatim>\<open>assert\<close> / \<^verbatim>\<open>g_assert\<close>, a shift
  \<^verbatim>\<open>1ULL << n\<close> with \<^verbatim>\<open>n >= 64\<close> and a read behind the end of an array (both undefined
  in C), the use of a null \<^verbatim>\<open>possible\<close> pointer, and an error stored into
  \<^verbatim>\<open>&error_fatal\<close>, which reports it and exits.
\<close>

datatype failure =
    AssertionFailed string
  | UndefinedShift nat
  | OutOfBoundsRead nat
  | NullDereference
  | ErrorFatal Error

text \<open>
  The text of a message: the \<^verbatim>\<open>printf\<close> directives used in this file are \<^verbatim>\<open>%s\<close>,
  \<^verbatim>\<open>%d\<close> and \<^verbatim>\<open>%lu\<close> (\<^verbatim>\<open>HWADDR_PRIu\<close>); a directive without a fitting argument is
  copied as it stands.
\<close>

function string_of_nat :: "nat \<Rightarrow> string" where
  "string_of_nat n =
     (if n < 10 then [char_of (48 + n)]
      else string_of_nat (n div 10) @ [char_of (48 + n mod 10)])"
  by pat_completeness auto
termination
  by (relation "measure id") auto

definition string_of_int :: "int \<Rightarrow> string" where
  "string_of_int k =
     (if k < 0 then CHR ''-'' # string_of_nat (nat (- k)) else string_of_nat (nat k))"

fun render_arg :: "char \<Rightarrow> fmt_arg \<Rightarrow> string option" where
  "render_arg c (ArgStr s) = (if c = CHR ''s'' then Some s else None)"
| "render_arg c (ArgInt k) =
     (if c = CHR ''d'' \<or> c = CHR ''u'' then Some (string_of_int k) else None)"

function format :: "string \<Rightarrow> fmt_arg list \<Rightarrow> string" where
  "format [] as = []"
| "format (c # r) as =
     (if c = CHR ''%'' then
        (case (dropWhile (\<lambda>x. x = CHR ''l'') r, as) of
           (d # r', a # as') \<Rightarrow>
             (case render_arg d a of
                Some t \<Rightarrow> t @ format r' as'
              | None \<Rightarrow> c # format r as)
         | _ \<Rightarrow> c # format r as)
      else c # format r as)"
  by pat_completeness auto
termination
proof (relation "measure (\<lambda>(f, as). length f)")
  fix c :: char and r :: string and as :: "fmt_arg list" and x y d r' a as' t
  assume "(x, y) = (dropWhile (\<lambda>x. x = CHR ''l'') r, as)" "x = d # r'"
  then have "length (d # r') \<le> length r"
    by (metis length_dropWhile_le prod.inject)
  then show "((r', as'), c # r, as) \<in> measure (\<lambda>(f, as). length f)"
    by simp
qed auto

fun error_get_pretty :: "Error \<Rightarrow> string" where
  "error_get_pretty (error_setg fmt args) = format fmt args"

subsection \<open>C library and QEMU utility functions used by the file\<close>

text \<open>
  A C string is the list of its bytes before the terminating NUL. \<^verbatim>\<open>strcmp\<close> and
  \<^verbatim>\<open>strcasecmp\<close> (in the C locale) return the sign of the first difference.
\<close>

fun strcmp :: "string \<Rightarrow> string \<Rightarrow> int" where
  "strcmp [] [] = 0"
| "strcmp [] (d # ds) = - 1"
| "strcmp (c # cs) [] = 1"
| "strcmp (c # cs) (d # ds) =
     (if c = d then strcmp cs ds
      else if (of_char c :: nat) < of_char d then - 1 else 1)"

definition tolower :: "char \<Rightarrow> char" where
  "tolower c =
     (if 65 \<le> (of_char c :: nat) \<and> (of_char c :: nat) \<le> 90
      then char_of ((of_char c :: nat) + 32) else c)"

definition strcasecmp :: "string \<Rightarrow> string \<Rightarrow> int" where
  "strcasecmp a b = strcmp (map tolower a) (map tolower b)"

text \<open>
  Modelled from the spec: \<^verbatim>\<open>is_power_of_2\<close> and \<^verbatim>\<open>ctz64\<close> are declared in
  \<^verbatim>\<open>qemu/host-utils.h\<close>, which is not among the sources. The spec asks for "an exact
  power of two" and takes the level to be its \<^verbatim>\<open>log2\<close>; \<^verbatim>\<open>ctz64\<close> counts the zero bits
  below the lowest one bit, and is 64 for the value 0.
\<close>

definition is_power_of_2 :: "u64 \<Rightarrow> bool" where
  "is_power_of_2 v \<longleftrightarrow> (\<exists>k\<in>{0..<64}. v = 2 ^ k)"

fun ctz_loop :: "nat \<Rightarrow> u64 \<Rightarrow> nat" where
  "ctz_loop 0 v = 0"
| "ctz_loop (Suc n) v = (if bit v 0 then 0 else Suc (ctz_loop n (drop_bit 1 v)))"

definition ctz64 :: "u64 \<Rightarrow> int" where
  "ctz64 v = (if v = 0 then 64 else int (ctz_loop 64 v))"

text \<open>\<^verbatim>\<open>EINVAL\<close> of \<^verbatim>\<open>errno.h\<close>.\<close>

definition EINVAL :: int where
  "EINVAL = 22"

subsection \<open>Capability indices and levels\<close>

text \<open>
  Modelled from the spec: the index and level macros of \<^verbatim>\<open>hw/ppc/spapr.h\<close>, which is
  not among the sources. Registration order is index order, and \<^verbatim>\<open>capability_table\<close>
  lists htm, vsx, dfp, cfpc, sbbc, ibs, hpt-max-page-size, nested-hv. A boolean
  capability is 0 (off) or 1 (on); an enumerated one is the index of its label.
\<close>

definition SPAPR_CAP_HTM :: nat where
  "SPAPR_CAP_HTM = 0"

definition SPAPR_CAP_VSX :: nat where
  "SPAPR_CAP_VSX = 1"

definition SPAPR_CAP_DFP :: nat where
  "SPAPR_CAP_DFP = 2"

definition SPAPR_CAP_CFPC :: nat where
  "SPAPR_CAP_CFPC = 3"

definition SPAPR_CAP_SBBC :: nat where
  "SPAPR_CAP_SBBC = 4"

definition SPAPR_CAP_IBS :: nat where
  "SPAPR_CAP_IBS = 5"

definition SPAPR_CAP_HPT_MAXPAGESIZE :: nat where
  "SPAPR_CAP_HPT_MAXPAGESIZE = 6"

definition SPAPR_CAP_NESTED_KVM_HV :: nat where
  "SPAPR_CAP_NESTED_KVM_HV = 7"

definition SPAPR_CAP_NUM :: nat where
  "SPAPR_CAP_NUM = SPAPR_CAP_NESTED_KVM_HV + 1"

definition SPAPR_CAP_OFF :: u8 where
  "SPAPR_CAP_OFF = 0"

definition SPAPR_CAP_ON :: u8 where
  "SPAPR_CAP_ON = 1"

definition SPAPR_CAP_BROKEN :: u8 where
  "SPAPR_CAP_BROKEN = 0"

definition SPAPR_CAP_WORKAROUND :: u8 where
  "SPAPR_CAP_WORKAROUND = 1"

definition SPAPR_CAP_FIXED :: u8 where
  "SPAPR_CAP_FIXED = 2"

text \<open>
  The compatibility PVRs of \<^verbatim>\<open>cpu-models.h\<close> and the instruction flags of
  \<^verbatim>\<open>target/ppc/cpu.h\<close>; no result below depends on their values.
\<close>

definition CPU_POWERPC_LOGICAL_2_06 :: u32 where
  "CPU_POWERPC_LOGICAL_2_06 = 0x0F000003"

definition CPU_POWERPC_LOGICAL_2_06_PLUS :: u32 where
  "CPU_POWERPC_LOGICAL_2_06_PLUS = 0x0F100003"

definition CPU_POWERPC_LOGICAL_2_07 :: u32 where
  "CPU_POWERPC_LOGICAL_2_07 = 0x0F000004"

definition PPC_ALTIVEC :: u64 where
  "PPC_ALTIVEC = 0x0000000001000000"

definition PPC2_VSX :: u64 where
  "PPC2_VSX = 0x0000000000000002"

definition PPC2_DFP :: u64 where
  "PPC2_DFP = 0x0000000000000004"

subsection \<open>Machine state and the host\<close>

record sPAPRCapabilities =
  caps :: "u8 list"

record sPAPRMachineClass =
  default_caps :: sPAPRCapabilities

text \<open>
  The fields of \<^verbatim>\<open>sPAPRMachineState\<close> that the file uses; \<^verbatim>\<open>cpu_type\<close> is
  \<^verbatim>\<open>MACHINE(spapr)->cpu_type\<close> and \<^verbatim>\<open>smc\<close> is \<^verbatim>\<open>SPAPR_MACHINE_GET_CLASS(spapr)\<close>.
\<close>

record sPAPRMachineState =
  cmd_line_caps :: "bool list"
  def :: sPAPRCapabilities
  eff :: sPAPRCapabilities
  mig :: sPAPRCapabilities
  max_compat_pvr :: u32
  cpu_type :: string
  smc :: sPAPRMachineClass

record CPUPPCState =
  insns_flags :: u64
  insns_flags2 :: u64

record PowerPCCPU =
  env :: CPUPPCState

text \<open>
  What the file asks of the accelerator, the CPU model and the host: each field is the
  value that the function of that name returns. \<^verbatim>\<open>kvmppc_get_cap_*\<close> return \<^verbatim>\<open>int\<close>,
  \<^verbatim>\<open>qemu_getrampagesize\<close> is taken after its conversion to a 64-bit unsigned value.
\<close>

record host =
  tcg_enabled :: bool
  kvm_enabled :: bool
  kvmppc_has_cap_htm :: bool
  kvmppc_get_cap_safe_cache :: int
  kvmppc_get_cap_safe_bounds_check :: int
  kvmppc_get_cap_safe_indirect_branch :: int
  kvmppc_hpt_needs_host_contiguous_pages :: bool
  kvmppc_has_cap_nested_kvm_hv :: bool
  kvmppc_set_cap_nested_kvm_hv :: "int \<Rightarrow> int"
  qemu_getrampagesize :: u64
  ppc_type_check_compat :: "string \<Rightarrow> u32 \<Rightarrow> u32 \<Rightarrow> u32 \<Rightarrow> bool"
  first_cpu :: PowerPCCPU
  ppc_hash64_filter_pagesizes ::
    "PowerPCCPU \<Rightarrow> (u32 \<Rightarrow> u32 \<Rightarrow> failure + bool) \<Rightarrow> failure + PowerPCCPU"

text \<open>
  An input visitor gives, for the type asked of it, a value or an error
  (\<^verbatim>\<open>visit_type_bool\<close>, \<^verbatim>\<open>visit_type_str\<close>, \<^verbatim>\<open>visit_type_size\<close>); a getter hands one value
  to an output visitor.
\<close>

record Visitor =
  visit_type_bool :: "Error + bool"
  visit_type_str :: "Error + string"
  visit_type_size :: "Error + u64"

datatype visited = VBool bool | VStr string | VSize u64

subsection \<open>Capability descriptors\<close>

record sPAPRCapPossible =
  num :: int
  help_text :: string
  vals :: "string list"

text \<open>The property accessors of a descriptor, by the name of the function pointed to.\<close>

datatype ObjectPropertyAccessor =
    Spapr_cap_get_bool
  | Spapr_cap_set_bool
  | Spapr_cap_get_string
  | Spapr_cap_set_string
  | Spapr_cap_get_pagesize
  | Spapr_cap_set_pagesize

type_synonym apply_result = "failure + Error option \<times> report list"

record sPAPRCapabilityInfo =
  name :: string
  description :: string
  index :: nat
  get :: ObjectPropertyAccessor
  set_fn :: ObjectPropertyAccessor
  type :: string
  possible :: "sPAPRCapPossible option"
  apply_fn :: "host \<Rightarrow> sPAPRMachineState \<Rightarrow> u8 \<Rightarrow> apply_result"
  cpu_apply ::
    "(host \<Rightarrow> sPAPRMachineState \<Rightarrow> PowerPCCPU \<Rightarrow> u8 \<Rightarrow>
      failure + Error option \<times> PowerPCCPU) option"

section \<open>The functions of the file\<close>

subsection \<open>Property getters and setters\<close>

text \<open>\<^verbatim>\<open>c.caps[i] = v\<close> on a capability set.\<close>

definition caps_update_at :: "sPAPRCapabilities \<Rightarrow> nat \<Rightarrow> u8 \<Rightarrow> sPAPRCapabilities" where
  "caps_update_at c i v = c\<lparr>caps := (caps c)[i := v]\<rparr>"

text \<open>\<^verbatim>\<open>spapr_get_cap\<close> is the inline accessor of \<^verbatim>\<open>hw/ppc/spapr.h\<close>.\<close>

definition spapr_get_cap :: "sPAPRMachineState \<Rightarrow> nat \<Rightarrow> u8" where
  "spapr_get_cap spapr cap = caps (eff spapr) ! cap"

definition spapr_cap_get_bool ::
  "sPAPRCapabilityInfo \<Rightarrow> sPAPRMachineState \<Rightarrow> failure + (Error + visited)" where
  "spapr_cap_get_bool cap spapr =
     (let value = (spapr_get_cap spapr (index cap) = SPAPR_CAP_ON)
      in Inr (Inr (VBool value)))"

definition spapr_cap_set_bool ::
  "sPAPRCapabilityInfo \<Rightarrow> Visitor \<Rightarrow> sPAPRMachineState \<Rightarrow> Error option \<times> sPAPRMachineState" where
  "spapr_cap_set_bool cap v spapr =
     (case visit_type_bool v of
        Inl local_err \<Rightarrow> (Some local_err, spapr)
      | Inr value \<Rightarrow>
          (None,
           spapr\<lparr>cmd_line_caps := (cmd_line_caps spapr)[index cap := True],
                 eff := caps_update_at (eff spapr) (index cap)
                          (if value then SPAPR_CAP_ON else SPAPR_CAP_OFF)\<rparr>))"

definition spapr_cap_get_string ::
  "sPAPRCapabilityInfo \<Rightarrow> sPAPRMachineState \<Rightarrow> failure + (Error + visited)" where
  "spapr_cap_get_string cap spapr =
     (let value = spapr_get_cap spapr (index cap) in
      case possible cap of
        None \<Rightarrow> Inl NullDereference
      | Some p \<Rightarrow>
          if uint value \<ge> num p then
            Inr (Inl (error_setg ''Invalid value (%d) for cap-%s''
                        [ArgInt (uint value), ArgStr (name cap)]))
          else Inr (Inr (VStr (vals p ! unat value))))"

text \<open>
  The search loop of \<^verbatim>\<open>spapr_cap_set_string\<close>: \<^verbatim>\<open>i\<close> is a \<^verbatim>\<open>uint8_t\<close> compared with
  the \<^verbatim>\<open>int\<close> \<^verbatim>\<open>num\<close>, so with more than 255 values and no match it would not end.
  The result is the index of the first match, if there is one.
\<close>

partial_function (option) spapr_cap_set_string_loop ::
  "sPAPRCapPossible \<Rightarrow> string \<Rightarrow> u8 \<Rightarrow> u8 option option" where
  "spapr_cap_set_string_loop p val i =
     (if uint i < num p then
        (if strcasecmp val (vals p ! unat i) = 0 then Some (Some i)
         else spapr_cap_set_string_loop p val (i + 1))
      else Some None)"

definition spapr_cap_set_string ::
  "sPAPRCapabilityInfo \<Rightarrow> Visitor \<Rightarrow> sPAPRMachineState \<Rightarrow>
   (failure + Error option \<times> sPAPRMachineState) option" where
  \<open>spapr_cap_set_string cap v spapr =
     (case visit_type_str v of
        Inl local_err \<Rightarrow> Some (Inr (Some local_err, spapr))
      | Inr val \<Rightarrow>
          (case possible cap of
             None \<Rightarrow> Some (Inl NullDereference)
           | Some p \<Rightarrow>
               if strcmp val ''?'' = 0 then
                 Some (Inr (Some (error_setg ''%s'' [ArgStr (help_text p)]), spapr))
               else
                 (case spapr_cap_set_string_loop p val 0 of
                    None \<Rightarrow> None
                  | Some (Some i) \<Rightarrow>
                      Some (Inr (None,
                        spapr\<lparr>cmd_line_caps := (cmd_line_caps spapr)[index cap := True],
                              eff := caps_update_at (eff spapr) (index cap) i\<rparr>))
                  | Some None \<Rightarrow>
                      Some (Inr (Some (error_setg ''Invalid capability mode "%s" for cap-%s''
                                         [ArgStr val, ArgStr (name cap)]),
                                 spapr)))))\<close>

definition spapr_cap_get_pagesize ::
  "sPAPRCapabilityInfo \<Rightarrow> sPAPRMachineState \<Rightarrow> failure + (Error + visited)" where
  "spapr_cap_get_pagesize cap spapr =
     (let val = spapr_get_cap spapr (index cap) in
      if unat val \<ge> 64 then Inl (UndefinedShift (unat val))
      else Inr (Inr (VSize (push_bit (unat val) 1))))"

definition spapr_cap_set_pagesize ::
  "sPAPRCapabilityInfo \<Rightarrow> Visitor \<Rightarrow> sPAPRMachineState \<Rightarrow> Error option \<times> sPAPRMachineState" where
  "spapr_cap_set_pagesize cap v spapr =
     (case visit_type_size v of
        Inl local_err \<Rightarrow> (Some local_err, spapr)
      | Inr pagesize \<Rightarrow>
          if \<not> is_power_of_2 pagesize then
            (Some (error_setg ''cap-%s must be a power of 2'' [ArgStr (name cap)]), spapr)
          else
            (let val = (word_of_int (ctz64 pagesize) :: u8) in
             (None,
              spapr\<lparr>cmd_line_caps := (cmd_line_caps spapr)[index cap := True],
                    eff := caps_update_at (eff spapr) (index cap) val\<rparr>)))"

subsection \<open>The apply functions\<close>

definition cap_htm_apply :: "host \<Rightarrow> sPAPRMachineState \<Rightarrow> u8 \<Rightarrow> apply_result" where
  "cap_htm_apply h spapr val =
     (if val = 0 then Inr (None, [])
      else if tcg_enabled h then
        Inr (Some (error_setg ''No Transactional Memory support in TCG, try cap-htm=off'' []), [])
      else if kvm_enabled h \<and> \<not> kvmppc_has_cap_htm h then
        Inr (Some (error_setg
          ''KVM implementation does not support Transactional Memory, try cap-htm=off'' []), [])
      else Inr (None, []))"

definition cap_vsx_apply :: "host \<Rightarrow> sPAPRMachineState \<Rightarrow> u8 \<Rightarrow> apply_result" where
  "cap_vsx_apply h spapr val =
     (let cpu = first_cpu h; env = env cpu in
      if val = 0 then Inr (None, [])
      else if insns_flags env AND PPC_ALTIVEC = 0 then
        Inl (AssertionFailed ''env->insns_flags & PPC_ALTIVEC'')
      else if insns_flags2 env AND PPC2_VSX = 0 then
        Inr (Some (error_setg ''VSX support not available, try cap-vsx=off'' []), [])
      else Inr (None, []))"

definition cap_dfp_apply :: "host \<Rightarrow> sPAPRMachineState \<Rightarrow> u8 \<Rightarrow> apply_result" where
  "cap_dfp_apply h spapr val =
     (let cpu = first_cpu h; env = env cpu in
      if val = 0 then Inr (None, [])
      else if insns_flags2 env AND PPC2_DFP = 0 then
        Inr (Some (error_setg ''DFP support not available, try cap-dfp=off'' []), [])
      else Inr (None, []))"

text \<open>\<^verbatim>\<open>p.vals[i]\<close> for a \<^verbatim>\<open>uint8_t\<close> index.\<close>

definition vals_at :: "sPAPRCapPossible \<Rightarrow> u8 \<Rightarrow> failure + string" where
  "vals_at p i =
     (if unat i < length (vals p) then Inr (vals p ! unat i)
      else Inl (OutOfBoundsRead (unat i)))"

definition cap_cfpc_possible :: sPAPRCapPossible where
  "cap_cfpc_possible =
     \<lparr>num = 3,
      help_text = ''broken - no protection, workaround - workaround available,''
                  @ '' fixed - fixed in hardware'',
      vals = [''broken'', ''workaround'', ''fixed'']\<rparr>"

definition cap_safe_cache_apply :: "host \<Rightarrow> sPAPRMachineState \<Rightarrow> u8 \<Rightarrow> apply_result" where
  "cap_safe_cache_apply h spapr val =
     (let kvm_val = (word_of_int (kvmppc_get_cap_safe_cache h) :: u8) in
      if tcg_enabled h \<and> val \<noteq> 0 then
        Inr (Some (error_setg
          ''Requested safe cache capability level not supported by tcg, try a different value for cap-cfpc''
          []), [])
      else if kvm_enabled h \<and> (val > kvm_val) then
        (case vals_at cap_cfpc_possible kvm_val of
           Inl f \<Rightarrow> Inl f
         | Inr s \<Rightarrow>
             Inr (Some (error_setg
               ''Requested safe cache capability level not supported by kvm, try cap-cfpc=%s''
               [ArgStr s]), []))
      else Inr (None, []))"

definition cap_sbbc_possible :: sPAPRCapPossible where
  "cap_sbbc_possible =
     \<lparr>num = 3,
      help_text = ''broken - no protection, workaround - workaround available,''
                  @ '' fixed - fixed in hardware'',
      vals = [''broken'', ''workaround'', ''fixed'']\<rparr>"

definition cap_safe_bounds_check_apply ::
  "host \<Rightarrow> sPAPRMachineState \<Rightarrow> u8 \<Rightarrow> apply_result" where
  "cap_safe_bounds_check_apply h spapr val =
     (let kvm_val = (word_of_int (kvmppc_get_cap_safe_bounds_check h) :: u8) in
      if tcg_enabled h \<and> val \<noteq> 0 then
        Inr (Some (error_setg
          ''Requested safe bounds check capability level not supported by tcg, try a different value for cap-sbbc''
          []), [])
      else if kvm_enabled h \<and> (val > kvm_val) then
        (case vals_at cap_sbbc_possible kvm_val of
           Inl f \<Rightarrow> Inl f
         | Inr s \<Rightarrow>
             Inr (Some (error_setg
               ''Requested safe bounds check capability level not supported by kvm, try cap-sbbc=%s''
               [ArgStr s]), []))
      else Inr (None, []))"

definition cap_ibs_possible :: sPAPRCapPossible where
  "cap_ibs_possible =
     \<lparr>num = 4,
      help_text = ''broken - no protection, fixed-ibs - indirect branch serialisation,''
                  @ '' fixed-ccd - cache count disabled'',
      vals = [''broken'', ''workaround'', ''fixed-ibs'', ''fixed-ccd'']\<rparr>"

definition cap_safe_indirect_branch_apply ::
  "host \<Rightarrow> sPAPRMachineState \<Rightarrow> u8 \<Rightarrow> apply_result" where
  \<open>cap_safe_indirect_branch_apply h spapr val =
     (let kvm_val = (word_of_int (kvmppc_get_cap_safe_indirect_branch h) :: u8) in
      if val = SPAPR_CAP_WORKAROUND then
        (case vals_at cap_ibs_possible kvm_val of
           Inl f \<Rightarrow> Inl f
         | Inr s \<Rightarrow>
             Inr (Some (error_setg
               ''Requested safe indirect branch capability level "workaround" not valid, try cap-ibs=%s''
               [ArgStr s]), []))
      else if tcg_enabled h \<and> val \<noteq> 0 then
        Inr (Some (error_setg
          ''Requested safe indirect branch capability level not supported by tcg, try a different value for cap-ibs''
          []), [])
      else if kvm_enabled h \<and> val \<noteq> 0 \<and> (val \<noteq> kvm_val) then
        (case vals_at cap_ibs_possible kvm_val of
           Inl f \<Rightarrow> Inl f
         | Inr s \<Rightarrow>
             Inr (Some (error_setg
               ''Requested safe indirect branch capability level not supported by kvm, try cap-ibs=%s''
               [ArgStr s]), []))
      else Inr (None, []))\<close>

definition VALUE_DESC_TRISTATE :: string where
  "VALUE_DESC_TRISTATE = '' (broken, workaround, fixed)''"

definition spapr_check_pagesize ::
  "host \<Rightarrow> sPAPRMachineState \<Rightarrow> u64 \<Rightarrow> failure + Error option" where
  "spapr_check_pagesize h spapr pagesize =
     (let e = caps (eff spapr) ! SPAPR_CAP_HPT_MAXPAGESIZE in
      if unat e \<ge> 64 then Inl (UndefinedShift (unat e))
      else
        (let maxpagesize = (push_bit (unat e) 1 :: u64) in
         if \<not> kvmppc_hpt_needs_host_contiguous_pages h then Inr None
         else if maxpagesize > pagesize then
           Inr (Some (error_setg
             ''Can't support %lu kiB guest pages with %lu kiB host pages with this KVM implementation''
             [ArgInt (uint (drop_bit 10 maxpagesize)), ArgInt (uint (drop_bit 10 pagesize))]))
         else Inr None))"

definition cap_hpt_maxpagesize_apply ::
  "host \<Rightarrow> sPAPRMachineState \<Rightarrow> u8 \<Rightarrow> apply_result" where
  "cap_hpt_maxpagesize_apply h spapr val =
     (if val < 12 then
        Inr (Some (error_setg ''Require at least 4kiB hpt-max-page-size'' []), [])
      else
        (let warned =
           (if val < 16 then
              [warn_report ''Many guests require at least 64kiB hpt-max-page-size'' []]
            else [])
         in case spapr_check_pagesize h spapr (qemu_getrampagesize h) of
              Inl f \<Rightarrow> Inl f
            | Inr errp \<Rightarrow> Inr (errp, warned)))"

text \<open>
  \<^verbatim>\<open>spapr_pagesize_cb(opaque, seg_pshift, pshift)\<close>; the first argument is the value
  \<^verbatim>\<open>*((unsigned * )opaque)\<close>.
\<close>

definition spapr_pagesize_cb :: "u32 \<Rightarrow> u32 \<Rightarrow> u32 \<Rightarrow> failure + bool" where
  "spapr_pagesize_cb maxshift seg_pshift pshift =
     (if \<not> (pshift \<ge> seg_pshift) then Inl (AssertionFailed ''pshift >= seg_pshift'')
      else if pshift > maxshift then Inr False
      else if (pshift \<noteq> seg_pshift) \<and> (pshift \<noteq> 24) then Inr False
      else Inr True)"

definition cap_hpt_maxpagesize_cpu_apply ::
  "host \<Rightarrow> sPAPRMachineState \<Rightarrow> PowerPCCPU \<Rightarrow> u8 \<Rightarrow> failure + Error option \<times> PowerPCCPU" where
  "cap_hpt_maxpagesize_cpu_apply h spapr cpu val =
     (let maxshift = (ucast val :: u32) in
      case ppc_hash64_filter_pagesizes h cpu (spapr_pagesize_cb maxshift) of
        Inl f \<Rightarrow> Inl f
      | Inr cpu' \<Rightarrow> Inr (None, cpu'))"

definition cap_nested_kvm_hv_apply :: "host \<Rightarrow> sPAPRMachineState \<Rightarrow> u8 \<Rightarrow> apply_result" where
  "cap_nested_kvm_hv_apply h spapr val =
     (if val = 0 then Inr (None, [])
      else if tcg_enabled h then
        Inr (Some (error_setg ''No Nested KVM-HV support in tcg, try cap-nested-hv=off'' []), [])
      else if kvm_enabled h then
        (if \<not> kvmppc_has_cap_nested_kvm_hv h then
           Inr (Some (error_setg
             ''KVM implementation does not support Nested KVM-HV, try cap-nested-hv=off'' []), [])
         else if kvmppc_set_cap_nested_kvm_hv h (uint val) < 0 then
           Inr (Some (error_setg
             ''Error enabling cap-nested-hv with KVM, try cap-nested-hv=off'' []), [])
         else Inr (None, []))
      else Inr (None, []))"

subsection \<open>The capability table\<close>

text \<open>
  The designated initialisers \<^verbatim>\<open>[SPAPR_CAP_HTM] = ...\<close> put each descriptor at its own
  index; the list has them in that order.
\<close>

definition capability_table :: "sPAPRCapabilityInfo list" where
  "capability_table =
     [\<lparr>name = ''htm'',
       description = ''Allow Hardware Transactional Memory (HTM)'',
       index = SPAPR_CAP_HTM,
       get = Spapr_cap_get_bool,
       set_fn = Spapr_cap_set_bool,
       type = ''bool'',
       possible = None,
       apply_fn = cap_htm_apply,
       cpu_apply = None\<rparr>,
      \<lparr>name = ''vsx'',
       description = ''Allow Vector Scalar Extensions (VSX)'',
       index = SPAPR_CAP_VSX,
       get = Spapr_cap_get_bool,
       set_fn = Spapr_cap_set_bool,
       type = ''bool'',
       possible = None,
       apply_fn = cap_vsx_apply,
       cpu_apply = None\<rparr>,
      \<lparr>name = ''dfp'',
       description = ''Allow Decimal Floating Point (DFP)'',
       index = SPAPR_CAP_DFP,
       get = Spapr_cap_get_bool,
       set_fn = Spapr_cap_set_bool,
       type = ''bool'',
       possible = None,
       apply_fn = cap_dfp_apply,
       cpu_apply = None\<rparr>,
      \<lparr>name = ''cfpc'',
       description = ''Cache Flush on Privilege Change'' @ VALUE_DESC_TRISTATE,
       index = SPAPR_CAP_CFPC,
       get = Spapr_cap_get_string,
       set_fn = Spapr_cap_set_string,
       type = ''string'',
       possible = Some cap_cfpc_possible,
       apply_fn = cap_safe_cache_apply,
       cpu_apply = None\<rparr>,
      \<lparr>name = ''sbbc'',
       description = ''Speculation Barrier Bounds Checking'' @ VALUE_DESC_TRISTATE,
       index = SPAPR_CAP_SBBC,
       get = Spapr_cap_get_string,
       set_fn = Spapr_cap_set_string,
       type = ''string'',
       possible = Some cap_sbbc_possible,
       apply_fn = cap_safe_bounds_check_apply,
       cpu_apply = None\<rparr>,
      \<lparr>name = ''ibs'',
       description = ''Indirect Branch Speculation (broken, fixed-ibs, fixed-ccd)'',
       index = SPAPR_CAP_IBS,
       get = Spapr_cap_get_string,
       set_fn = Spapr_cap_set_string,
       type = ''string'',
       possible = Some cap_ibs_possible,
       apply_fn = cap_safe_indirect_branch_apply,
       cpu_apply = None\<rparr>,
      \<lparr>name = ''hpt-max-page-size'',
       description = ''Maximum page size for Hash Page Table guests'',
       index = SPAPR_CAP_HPT_MAXPAGESIZE,
       get = Spapr_cap_get_pagesize,
       set_fn = Spapr_cap_set_pagesize,
       type = ''int'',
       possible = None,
       apply_fn = cap_hpt_maxpagesize_apply,
       cpu_apply = Some cap_hpt_maxpagesize_cpu_apply\<rparr>,
      \<lparr>name = ''nested-hv'',
       description = ''Allow Nested KVM-HV'',
       index = SPAPR_CAP_NESTED_KVM_HV,
       get = Spapr_cap_get_bool,
       set_fn = Spapr_cap_set_bool,
       type = ''bool'',
       possible = None,
       apply_fn = cap_nested_kvm_hv_apply,
       cpu_apply = None\<rparr>]"

text \<open>
  The property system calls \<^verbatim>\<open>cap->set(obj, v, name, cap, errp)\<close> and
  \<^verbatim>\<open>cap->get(obj, v, name, cap, errp)\<close>; a getter in the place of a setter (or the
  reverse) does not occur in the table.
\<close>

definition property_set ::
  "sPAPRCapabilityInfo \<Rightarrow> Visitor \<Rightarrow> sPAPRMachineState \<Rightarrow>
   (failure + Error option \<times> sPAPRMachineState) option" where
  "property_set cap v spapr =
     (case set_fn cap of
        Spapr_cap_set_bool \<Rightarrow> Some (Inr (spapr_cap_set_bool cap v spapr))
      | Spapr_cap_set_string \<Rightarrow> spapr_cap_set_string cap v spapr
      | Spapr_cap_set_pagesize \<Rightarrow> Some (Inr (spapr_cap_set_pagesize cap v spapr))
      | _ \<Rightarrow> Some (Inl NullDereference))"

definition property_get ::
  "sPAPRCapabilityInfo \<Rightarrow> sPAPRMachineState \<Rightarrow> failure + (Error + visited)" where
  "property_get cap spapr =
     (case get cap of
        Spapr_cap_get_bool \<Rightarrow> spapr_cap_get_bool cap spapr
      | Spapr_cap_get_string \<Rightarrow> spapr_cap_get_string cap spapr
      | Spapr_cap_get_pagesize \<Rightarrow> spapr_cap_get_pagesize cap spapr
      | _ \<Rightarrow> Inl NullDereference)"

subsection \<open>Defaults\<close>

definition default_caps_with_cpu ::
  "host \<Rightarrow> sPAPRMachineState \<Rightarrow> string \<Rightarrow> sPAPRCapabilities" where
  "default_caps_with_cpu h spapr cputype =
     (let smc = smc spapr;
          caps = default_caps smc;
          caps =
            (if \<not> ppc_type_check_compat h cputype CPU_POWERPC_LOGICAL_2_07 0
                    (max_compat_pvr spapr)
             then caps_update_at (caps_update_at caps SPAPR_CAP_HTM SPAPR_CAP_OFF)
                    SPAPR_CAP_CFPC SPAPR_CAP_BROKEN
             else caps);
          caps =
            (if \<not> ppc_type_check_compat h cputype CPU_POWERPC_LOGICAL_2_06_PLUS 0
                    (max_compat_pvr spapr)
             then caps_update_at caps SPAPR_CAP_SBBC SPAPR_CAP_BROKEN
             else caps);
          caps =
            (if \<not> ppc_type_check_compat h cputype CPU_POWERPC_LOGICAL_2_06 0
                    (max_compat_pvr spapr)
             then caps_update_at
                    (caps_update_at (caps_update_at caps SPAPR_CAP_VSX SPAPR_CAP_OFF)
                       SPAPR_CAP_DFP SPAPR_CAP_OFF)
                    SPAPR_CAP_IBS SPAPR_CAP_BROKEN
             else caps);
          caps =
            (if sPAPRCapabilities.caps (default_caps smc) ! SPAPR_CAP_HPT_MAXPAGESIZE = 0 then
               (let mps =
                  (if kvmppc_hpt_needs_host_contiguous_pages h
                   then (word_of_int (ctz64 (qemu_getrampagesize h)) :: u8)
                   else 34)
                in caps_update_at caps SPAPR_CAP_HPT_MAXPAGESIZE mps)
             else caps)
      in caps)"

subsection \<open>Migration\<close>

definition spapr_caps_pre_load :: "sPAPRMachineState \<Rightarrow> int \<times> sPAPRMachineState" where
  "spapr_caps_pre_load spapr = (0, spapr\<lparr>mig := def spapr\<rparr>)"

definition spapr_caps_pre_save :: "sPAPRMachineState \<Rightarrow> int \<times> sPAPRMachineState" where
  "spapr_caps_pre_save spapr = (0, spapr\<lparr>mig := eff spapr\<rparr>)"

text \<open>The first loop of \<^verbatim>\<open>spapr_caps_post_migration\<close>, from the recomputed defaults.\<close>

definition post_migration_srccaps :: "host \<Rightarrow> sPAPRMachineState \<Rightarrow> sPAPRCapabilities" where
  "post_migration_srccaps h spapr =
     (let srccaps = default_caps_with_cpu h spapr (cpu_type spapr)
      in fold (\<lambda>i srccaps.
                 if caps (mig spapr) ! i \<noteq> caps (def spapr) ! i
                 then caps_update_at srccaps i (caps (mig spapr) ! i)
                 else srccaps)
           [0..<SPAPR_CAP_NUM] srccaps)"

text \<open>The body of the second loop, on the flag \<^verbatim>\<open>ok\<close> and the lines written so far.\<close>

definition post_migration_compare ::
  "sPAPRCapabilities \<Rightarrow> sPAPRCapabilities \<Rightarrow> nat \<Rightarrow> bool \<times> report list \<Rightarrow>
   bool \<times> report list" where
  "post_migration_compare srccaps dstcaps i st =
     (let info = capability_table ! i;
          st =
            (if caps srccaps ! i > caps dstcaps ! i then
               (False,
                snd st @
                [error_report
                   ''cap-%s higher level (%d) in incoming stream than on destination (%d)''
                   [ArgStr (name info), ArgInt (uint (caps srccaps ! i)),
                    ArgInt (uint (caps dstcaps ! i))]])
             else st);
          st =
            (if caps srccaps ! i < caps dstcaps ! i then
               (fst st,
                snd st @
                [warn_report
                   ''cap-%s lower level (%d) in incoming stream than on destination (%d)''
                   [ArgStr (name info), ArgInt (uint (caps srccaps ! i)),
                    ArgInt (uint (caps dstcaps ! i))]])
             else st)
      in st)"

text \<open>
  The result is the return value, the lines written by \<^verbatim>\<open>error_report\<close> and
  \<^verbatim>\<open>warn_report\<close> in order, and the machine state after the call.
\<close>

definition spapr_caps_post_migration ::
  "host \<Rightarrow> sPAPRMachineState \<Rightarrow> (int \<times> report list) \<times> sPAPRMachineState" where
  "spapr_caps_post_migration h spapr =
     (let dstcaps = eff spapr;
          srccaps = post_migration_srccaps h spapr;
          (ok, out) = fold (post_migration_compare srccaps dstcaps) [0..<SPAPR_CAP_NUM] (True, [])
      in ((if ok then 0 else - EINVAL, out), spapr))"

text \<open>\<^verbatim>\<open>spapr_cap_##sname##_needed\<close> of the macro \<^verbatim>\<open>SPAPR_CAP_MIG_STATE(sname, cap)\<close>.\<close>

definition spapr_cap_needed :: "nat \<Rightarrow> sPAPRMachineState \<Rightarrow> bool" where
  "spapr_cap_needed cap spapr \<longleftrightarrow>
     cmd_line_caps spapr ! cap \<and> (caps (eff spapr) ! cap \<noteq> caps (def spapr) ! cap)"

subsection \<open>Initialisation and activation\<close>

definition spapr_caps_init :: "host \<Rightarrow> sPAPRMachineState \<Rightarrow> sPAPRMachineState" where
  "spapr_caps_init h spapr =
     (let default_caps = default_caps_with_cpu h spapr (cpu_type spapr)
      in fold (\<lambda>i spapr.
                 let spapr = spapr\<lparr>def := caps_update_at (def spapr) i (caps default_caps ! i)\<rparr>
                 in if \<not> cmd_line_caps spapr ! i
                    then spapr\<lparr>eff := caps_update_at (eff spapr) i (caps default_caps ! i)\<rparr>
                    else spapr)
           [0..<SPAPR_CAP_NUM] spapr)"

text \<open>
  \<^verbatim>\<open>spapr_caps_apply\<close> gives \<^verbatim>\<open>&error_fatal\<close> to every apply function: the first
  error ends the process. Otherwise the result is the warnings written.
\<close>

fun spapr_caps_apply_loop ::
  "host \<Rightarrow> sPAPRMachineState \<Rightarrow> nat list \<Rightarrow> report list \<Rightarrow> failure + report list" where
  "spapr_caps_apply_loop h spapr [] out = Inr out"
| "spapr_caps_apply_loop h spapr (i # is) out =
     (let info = capability_table ! i in
      case apply_fn info h spapr (caps (eff spapr) ! i) of
        Inl f \<Rightarrow> Inl f
      | Inr (Some err, warned) \<Rightarrow> Inl (ErrorFatal err)
      | Inr (None, warned) \<Rightarrow> spapr_caps_apply_loop h spapr is (out @ warned))"

definition spapr_caps_apply :: "host \<Rightarrow> sPAPRMachineState \<Rightarrow> failure + report list" where
  "spapr_caps_apply h spapr = spapr_caps_apply_loop h spapr [0..<SPAPR_CAP_NUM] []"

fun spapr_caps_cpu_apply_loop ::
  "host \<Rightarrow> sPAPRMachineState \<Rightarrow> nat list \<Rightarrow> PowerPCCPU \<Rightarrow> failure + PowerPCCPU" where
  "spapr_caps_cpu_apply_loop h spapr [] cpu = Inr cpu"
| "spapr_caps_cpu_apply_loop h spapr (i # is) cpu =
     (let info = capability_table ! i in
      case cpu_apply info of
        None \<Rightarrow> spapr_caps_cpu_apply_loop h spapr is cpu
      | Some f \<Rightarrow>
          (case f h spapr cpu (caps (eff spapr) ! i) of
             Inl e \<Rightarrow> Inl e
           | Inr (Some err, cpu') \<Rightarrow> Inl (ErrorFatal err)
           | Inr (None, cpu') \<Rightarrow> spapr_caps_cpu_apply_loop h spapr is cpu'))"

definition spapr_caps_cpu_apply ::
  "host \<Rightarrow> sPAPRMachineState \<Rightarrow> PowerPCCPU \<Rightarrow> failure + PowerPCCPU" where
  "spapr_caps_cpu_apply h spapr cpu = spapr_caps_cpu_apply_loop h spapr [0..<SPAPR_CAP_NUM] cpu"

text \<open>Every array of the machine state has \<^verbatim>\<open>SPAPR_CAP_NUM\<close> entries.\<close>

definition machine_ok :: "sPAPRMachineState \<Rightarrow> bool" where
  "machine_ok spapr \<longleftrightarrow>
     length (cmd_line_caps spapr) = SPAPR_CAP_NUM \<and>
     length (caps (def spapr)) = SPAPR_CAP_NUM \<and>
     length (caps (eff spapr)) = SPAPR_CAP_NUM \<and>
     length (caps (mig spapr)) = SPAPR_CAP_NUM \<and>
     length (caps (default_caps (smc spapr))) = SPAPR_CAP_NUM"

section \<open>Example machines\<close>

text \<open>
  A KVM host whose count-cache mitigation is fixed-ccd, a TCG host, and a destination
  machine left at its defaults, with two incoming capability sets: one that asks for
  more than the destination has (cfpc fixed against workaround) and one that asks for
  less.
\<close>

definition example_cpu :: PowerPCCPU where
  "example_cpu = \<lparr>env = \<lparr>insns_flags = PPC_ALTIVEC, insns_flags2 = PPC2_VSX OR PPC2_DFP\<rparr>\<rparr>"

definition kvm_host :: host where
  "kvm_host =
     \<lparr>tcg_enabled = False,
      kvm_enabled = True,
      kvmppc_has_cap_htm = True,
      kvmppc_get_cap_safe_cache = 1,
      kvmppc_get_cap_safe_bounds_check = 1,
      kvmppc_get_cap_safe_indirect_branch = 3,
      kvmppc_hpt_needs_host_contiguous_pages = False,
      kvmppc_has_cap_nested_kvm_hv = False,
      kvmppc_set_cap_nested_kvm_hv = (\<lambda>enable. 0),
      qemu_getrampagesize = 65536,
      ppc_type_check_compat = (\<lambda>cputype compat_pvr min_compat_pvr max_compat_pvr. True),
      first_cpu = example_cpu,
      ppc_hash64_filter_pagesizes = (\<lambda>cpu cb. Inr cpu)\<rparr>"

definition tcg_host :: host where
  "tcg_host = kvm_host\<lparr>tcg_enabled := True, kvm_enabled := False\<rparr>"

definition dest_machine :: sPAPRMachineState where
  "dest_machine =
     \<lparr>cmd_line_caps = [False, False, False, False, False, False, False, False],
      def = \<lparr>caps = [0, 1, 1, 1, 1, 0, 16, 0]\<rparr>,
      eff = \<lparr>caps = [0, 1, 1, 1, 1, 0, 16, 0]\<rparr>,
      mig = \<lparr>caps = [0, 1, 1, 1, 1, 0, 16, 0]\<rparr>,
      max_compat_pvr = 0,
      cpu_type = ''power8_v2.0-powerpc64-cpu'',
      smc = \<lparr>default_caps = \<lparr>caps = [0, 1, 1, 1, 1, 0, 16, 0]\<rparr>\<rparr>\<rparr>"

definition incoming_higher :: sPAPRMachineState where
  "incoming_higher = dest_machine\<lparr>mig := \<lparr>caps = [0, 1, 1, 2, 1, 0, 16, 0]\<rparr>\<rparr>"

definition incoming_lower :: sPAPRMachineState where
  "incoming_lower = dest_machine\<lparr>mig := \<lparr>caps = [0, 1, 1, 0, 1, 0, 16, 0]\<rparr>\<rparr>"

text \<open>A KVM host whose count-cache mitigation is fixed-ibs, and a machine with every
  effective level 0.\<close>

definition kvm_host_ibs :: host where
  "kvm_host_ibs = kvm_host\<lparr>kvmppc_get_cap_safe_indirect_branch := 2\<rparr>"

definition zero_machine :: sPAPRMachineState where
  "zero_machine = dest_machine\<lparr>eff := \<lparr>caps = [0, 0, 0, 0, 0, 0, 0, 0]\<rparr>\<rparr>"

text \<open>Input visitors that hold one size, or one string.\<close>

definition visitor_of_size :: "u64 \<Rightarrow> Visitor" where
  "visitor_of_size n =
     \<lparr>visit_type_bool = Inl (error_setg ''Invalid parameter type'' []),
      visit_type_str = Inl (error_setg ''Invalid parameter type'' []),
      visit_type_size = Inr n\<rparr>"

definition visitor_of_str :: "string \<Rightarrow> Visitor" where
  "visitor_of_str s =
     \<lparr>visit_type_bool = Inl (error_setg ''Invalid parameter type'' []),
      visit_type_str = Inr s,
      visit_type_size = Inl (error_setg ''Invalid parameter type'' [])\<rparr>"

section \<open>Theorems\<close>

subsection \<open>Capability sets\<close>

lemma caps_update_at_caps:
  "caps (caps_update_at c i v) = (caps c)[i := v]"
  by (simp add: caps_update_at_def)

lemma default_caps_with_cpu_length:
  "length (caps (default_caps_with_cpu h spapr cputype)) =
   length (caps (default_caps (smc spapr)))"
  by (simp add: default_caps_with_cpu_def Let_def caps_update_at_caps)

lemma SPAPR_CAP_NUM_eq: "SPAPR_CAP_NUM = 8"
  by (simp add: SPAPR_CAP_NUM_def SPAPR_CAP_NESTED_KVM_HV_def)

subsection \<open>The migration check\<close>

lemma srccaps_fold_length:
  "length (caps (fold (\<lambda>i srccaps.
                 if caps m ! i \<noteq> caps d ! i
                 then caps_update_at srccaps i (caps m ! i)
                 else srccaps) is c)) = length (caps c)"
  by (induction "is" arbitrary: c) (simp_all add: caps_update_at_caps)

lemma srccaps_fold_nth:
  "n \<le> length (caps c) \<Longrightarrow> i < length (caps c) \<Longrightarrow>
   caps (fold (\<lambda>i srccaps.
                 if caps m ! i \<noteq> caps d ! i
                 then caps_update_at srccaps i (caps m ! i)
                 else srccaps) [0..<n] c) ! i =
   (if i < n \<and> caps m ! i \<noteq> caps d ! i then caps m ! i else caps c ! i)"
proof (induction n)
  case 0
  then show ?case by simp
next
  case (Suc n)
  then show ?case
    by (auto simp: caps_update_at_caps srccaps_fold_length nth_list_update less_Suc_eq)
qed

lemma post_migration_srccaps_nth:
  assumes "length (caps (default_caps (smc spapr))) = SPAPR_CAP_NUM" "i < SPAPR_CAP_NUM"
  shows "caps (post_migration_srccaps h spapr) ! i =
     (if caps (mig spapr) ! i = caps (def spapr) ! i
      then caps (default_caps_with_cpu h spapr (cpu_type spapr)) ! i
      else caps (mig spapr) ! i)"
  using assms
  by (simp add: post_migration_srccaps_def Let_def srccaps_fold_nth default_caps_with_cpu_length)

lemma post_migration_compare_fold:
  "fold (post_migration_compare s d) is st =
     (fst st \<and> (\<forall>i\<in>set is. \<not> caps s ! i > caps d ! i),
      snd st @ concat (map (\<lambda>i.
        (if caps s ! i > caps d ! i then
           [error_report
              ''cap-%s higher level (%d) in incoming stream than on destination (%d)''
              [ArgStr (name (capability_table ! i)), ArgInt (uint (caps s ! i)),
               ArgInt (uint (caps d ! i))]]
         else []) @
        (if caps s ! i < caps d ! i then
           [warn_report
              ''cap-%s lower level (%d) in incoming stream than on destination (%d)''
              [ArgStr (name (capability_table ! i)), ArgInt (uint (caps s ! i)),
               ArgInt (uint (caps d ! i))]]
         else [])) is))"
proof (induction "is" arbitrary: st)
  case Nil
  then show ?case by simp
next
  case (Cons i "is")
  show ?case
    unfolding fold_simps Cons.IH
    by (cases st) (auto simp: post_migration_compare_def Let_def)
qed

lemma post_migration_result:
  "spapr_caps_post_migration h spapr =
     ((if \<forall>i<SPAPR_CAP_NUM.
            \<not> caps (post_migration_srccaps h spapr) ! i > caps (eff spapr) ! i
       then 0 else - EINVAL,
       concat (map (\<lambda>i.
        (if caps (post_migration_srccaps h spapr) ! i > caps (eff spapr) ! i then
           [error_report
              ''cap-%s higher level (%d) in incoming stream than on destination (%d)''
              [ArgStr (name (capability_table ! i)),
               ArgInt (uint (caps (post_migration_srccaps h spapr) ! i)),
               ArgInt (uint (caps (eff spapr) ! i))]]
         else []) @
        (if caps (post_migration_srccaps h spapr) ! i < caps (eff spapr) ! i then
           [warn_report
              ''cap-%s lower level (%d) in incoming stream than on destination (%d)''
              [ArgStr (name (capability_table ! i)),
               ArgInt (uint (caps (post_migration_srccaps h spapr) ! i)),
               ArgInt (uint (caps (eff spapr) ! i))]]
         else [])) [0..<SPAPR_CAP_NUM])),
      spapr)"
  by (auto simp: spapr_caps_post_migration_def Let_def post_migration_compare_fold)

lemma machine_ok_examples:
  "machine_ok dest_machine" "machine_ok incoming_higher" "machine_ok incoming_lower"
  by (simp_all add: machine_ok_def dest_machine_def incoming_higher_def incoming_lower_def
      SPAPR_CAP_NUM_eq)

lemma incoming_higher_srccaps:
  "caps (post_migration_srccaps kvm_host incoming_higher) = [0, 1, 1, 2, 1, 0, 16, 0]"
  by code_simp

lemma incoming_lower_srccaps:
  "caps (post_migration_srccaps kvm_host incoming_lower) = [0, 1, 1, 0, 1, 0, 16, 0]"
  by code_simp

lemma examples_eff:
  "caps (eff incoming_higher) = [0, 1, 1, 1, 1, 0, 16, 0]"
  "caps (eff incoming_lower) = [0, 1, 1, 1, 1, 0, 16, 0]"
  by (simp_all add: dest_machine_def incoming_higher_def incoming_lower_def)

lemma capability_table_names:
  "map name capability_table =
     [''htm'', ''vsx'', ''dfp'', ''cfpc'', ''sbbc'', ''ibs'', ''hpt-max-page-size'', ''nested-hv'']"
  by (simp add: capability_table_def)

lemma capability_table_indices:
  "map index capability_table = [0..<SPAPR_CAP_NUM]"
  by (simp add: capability_table_def SPAPR_CAP_NUM_eq SPAPR_CAP_HTM_def SPAPR_CAP_VSX_def
      SPAPR_CAP_DFP_def SPAPR_CAP_CFPC_def SPAPR_CAP_SBBC_def SPAPR_CAP_IBS_def
      SPAPR_CAP_HPT_MAXPAGESIZE_def SPAPR_CAP_NESTED_KVM_HV_def upt_rec)

lemma cfpc_name: "name (capability_table ! 3) = ''cfpc''"
  by (simp add: capability_table_def)

text \<open>
  C1. \<^verbatim>\<open>spapr_caps_post_migration\<close> returns \<^verbatim>\<open>-EINVAL\<close> exactly when some capability
  index has a reconstructed source level above the destination's effective level, and
  returns 0 otherwise. The loop does not stop at a violation: for every such index the
  output has the \<^verbatim>\<open>error_report\<close> line with the name of the capability, the source
  level and the destination level.
\<close>

theorem post_migration_fails_iff:
  "(fst (fst (spapr_caps_post_migration h spapr)) = - EINVAL \<longleftrightarrow>
      (\<exists>i<SPAPR_CAP_NUM. caps (post_migration_srccaps h spapr) ! i > caps (eff spapr) ! i)) \<and>
   (fst (fst (spapr_caps_post_migration h spapr)) \<noteq> - EINVAL \<longrightarrow>
      fst (fst (spapr_caps_post_migration h spapr)) = 0) \<and>
   (\<forall>i<SPAPR_CAP_NUM.
      caps (post_migration_srccaps h spapr) ! i > caps (eff spapr) ! i \<longrightarrow>
      error_report ''cap-%s higher level (%d) in incoming stream than on destination (%d)''
        [ArgStr (name (capability_table ! i)),
         ArgInt (uint (caps (post_migration_srccaps h spapr) ! i)),
         ArgInt (uint (caps (eff spapr) ! i))]
      \<in> set (snd (fst (spapr_caps_post_migration h spapr))))"
  unfolding post_migration_result
  by (auto simp: EINVAL_def)

theorem post_migration_fails_iff_witness:
  "fst (fst (spapr_caps_post_migration kvm_host incoming_higher)) = - EINVAL \<and>
   error_report ''cap-%s higher level (%d) in incoming stream than on destination (%d)''
     [ArgStr ''cfpc'', ArgInt 2, ArgInt 1]
   \<in> set (snd (fst (spapr_caps_post_migration kvm_host incoming_higher))) \<and>
   fst (fst (spapr_caps_post_migration kvm_host incoming_lower)) = 0"
proof -
  have three: "(3::nat) < SPAPR_CAP_NUM"
    by (simp add: SPAPR_CAP_NUM_eq)
  have above: "caps (post_migration_srccaps kvm_host incoming_higher) ! 3
      > caps (eff incoming_higher) ! 3"
    by (simp add: incoming_higher_srccaps examples_eff)
  have none: "\<not> (\<exists>i<SPAPR_CAP_NUM. caps (post_migration_srccaps kvm_host incoming_lower) ! i
      > caps (eff incoming_lower) ! i)"
    by (simp add: incoming_lower_srccaps examples_eff SPAPR_CAP_NUM_eq eval_nat_numeral
        All_less_Suc Ex_less_Suc)
  have "fst (fst (spapr_caps_post_migration kvm_host incoming_higher)) = - EINVAL"
    using post_migration_fails_iff [of kvm_host incoming_higher] three above by blast
  moreover have "error_report
      ''cap-%s higher level (%d) in incoming stream than on destination (%d)''
      [ArgStr (name (capability_table ! 3)),
       ArgInt (uint (caps (post_migration_srccaps kvm_host incoming_higher) ! 3)),
       ArgInt (uint (caps (eff incoming_higher) ! 3))]
     \<in> set (snd (fst (spapr_caps_post_migration kvm_host incoming_higher)))"
    using post_migration_fails_iff [of kvm_host incoming_higher] three above by blast
  moreover have "fst (fst (spapr_caps_post_migration kvm_host incoming_lower)) = 0"
    using post_migration_fails_iff [of kvm_host incoming_lower] none by blast
  ultimately show ?thesis
    by (simp add: cfpc_name incoming_higher_srccaps examples_eff)
qed

text \<open>
  C2. On a machine whose capability arrays all have \<^verbatim>\<open>SPAPR_CAP_NUM\<close> entries, the
  source set reconstructed by \<^verbatim>\<open>spapr_caps_post_migration\<close> has, at every index, the
  freshly recomputed default (\<^verbatim>\<open>default_caps_with_cpu\<close> for the machine's cpu type)
  where the incoming value equals the stored default, and the incoming value where the
  two differ.
\<close>

theorem post_migration_srccaps_spec:
  assumes "machine_ok spapr"
  shows "\<forall>i<SPAPR_CAP_NUM.
     (caps (mig spapr) ! i = caps (def spapr) ! i \<longrightarrow>
        caps (post_migration_srccaps h spapr) ! i =
        caps (default_caps_with_cpu h spapr (cpu_type spapr)) ! i) \<and>
     (caps (mig spapr) ! i \<noteq> caps (def spapr) ! i \<longrightarrow>
        caps (post_migration_srccaps h spapr) ! i = caps (mig spapr) ! i)"
  using assms by (simp add: machine_ok_def post_migration_srccaps_nth)

theorem post_migration_srccaps_spec_witness:
  "machine_ok incoming_higher \<and>
   caps (post_migration_srccaps kvm_host incoming_higher) ! 3 = 2 \<and>
   caps (post_migration_srccaps kvm_host incoming_higher) ! 6 =
   caps (default_caps_with_cpu kvm_host incoming_higher (cpu_type incoming_higher)) ! 6"
proof -
  have ok: "machine_ok incoming_higher"
    by (rule machine_ok_examples)
  have idx: "(3::nat) < SPAPR_CAP_NUM" "(6::nat) < SPAPR_CAP_NUM"
    by (simp_all add: SPAPR_CAP_NUM_eq)
  have vals: "caps (mig incoming_higher) ! 3 = 2"
    "caps (mig incoming_higher) ! 3 \<noteq> caps (def incoming_higher) ! 3"
    "caps (mig incoming_higher) ! 6 = caps (def incoming_higher) ! 6"
    by (simp_all add: incoming_higher_def dest_machine_def)
  show ?thesis
    using post_migration_srccaps_spec [OF ok, of kvm_host] idx vals ok by metis
qed

text \<open>
  C3. For every capability index whose reconstructed source level is below the
  destination's effective level, the output of \<^verbatim>\<open>spapr_caps_post_migration\<close> has the
  \<^verbatim>\<open>warn_report\<close> line with the name of the capability and both levels; and when no
  index has a source level above the destination's, the function returns 0, whatever
  warnings it wrote.
\<close>

theorem post_migration_warns:
  "(\<forall>i<SPAPR_CAP_NUM.
      caps (post_migration_srccaps h spapr) ! i < caps (eff spapr) ! i \<longrightarrow>
      warn_report ''cap-%s lower level (%d) in incoming stream than on destination (%d)''
        [ArgStr (name (capability_table ! i)),
         ArgInt (uint (caps (post_migration_srccaps h spapr) ! i)),
         ArgInt (uint (caps (eff spapr) ! i))]
      \<in> set (snd (fst (spapr_caps_post_migration h spapr)))) \<and>
   ((\<forall>i<SPAPR_CAP_NUM.
       \<not> caps (post_migration_srccaps h spapr) ! i > caps (eff spapr) ! i) \<longrightarrow>
    fst (fst (spapr_caps_post_migration h spapr)) = 0)"
  unfolding post_migration_result
  by auto

theorem post_migration_warns_witness:
  "warn_report ''cap-%s lower level (%d) in incoming stream than on destination (%d)''
     [ArgStr ''cfpc'', ArgInt 0, ArgInt 1]
   \<in> set (snd (fst (spapr_caps_post_migration kvm_host incoming_lower))) \<and>
   fst (fst (spapr_caps_post_migration kvm_host incoming_lower)) = 0"
proof -
  have three: "(3::nat) < SPAPR_CAP_NUM"
    by (simp add: SPAPR_CAP_NUM_eq)
  have below: "caps (post_migration_srccaps kvm_host incoming_lower) ! 3
      < caps (eff incoming_lower) ! 3"
    by (simp add: incoming_lower_srccaps examples_eff)
  have none: "\<forall>i<SPAPR_CAP_NUM. \<not> caps (post_migration_srccaps kvm_host incoming_lower) ! i
      > caps (eff incoming_lower) ! i"
    by (simp add: incoming_lower_srccaps examples_eff SPAPR_CAP_NUM_eq eval_nat_numeral
        All_less_Suc Ex_less_Suc)
  have "warn_report ''cap-%s lower level (%d) in incoming stream than on destination (%d)''
      [ArgStr (name (capability_table ! 3)),
       ArgInt (uint (caps (post_migration_srccaps kvm_host incoming_lower) ! 3)),
       ArgInt (uint (caps (eff incoming_lower) ! 3))]
     \<in> set (snd (fst (spapr_caps_post_migration kvm_host incoming_lower)))"
    using post_migration_warns [of kvm_host incoming_lower] three below by blast
  moreover have "fst (fst (spapr_caps_post_migration kvm_host incoming_lower)) = 0"
    using post_migration_warns [of kvm_host incoming_lower] none by blast
  ultimately show ?thesis
    by (simp add: cfpc_name incoming_lower_srccaps examples_eff)
qed

text \<open>
  C4. The result of \<^verbatim>\<open>default_caps_with_cpu\<close> is a function of the machine class's
  default set, the cpu type, the maximum compatibility PVR and what the host answers
  (\<^verbatim>\<open>ppc_type_check_compat\<close>, \<^verbatim>\<open>kvmppc_hpt_needs_host_contiguous_pages\<close>,
  \<^verbatim>\<open>qemu_getrampagesize\<close>): two calls that agree on these return the same set,
  whatever the rest of the machine state is. The function has no error result, and
  its result has as many entries as the class default.
\<close>

theorem default_caps_with_cpu_pure:
  assumes "default_caps (smc s1) = default_caps (smc s2)"
    and "max_compat_pvr s1 = max_compat_pvr s2"
    and "ppc_type_check_compat h1 = ppc_type_check_compat h2"
    and "kvmppc_hpt_needs_host_contiguous_pages h1 = kvmppc_hpt_needs_host_contiguous_pages h2"
    and "qemu_getrampagesize h1 = qemu_getrampagesize h2"
  shows "default_caps_with_cpu h1 s1 cputype = default_caps_with_cpu h2 s2 cputype \<and>
    length (caps (default_caps_with_cpu h1 s1 cputype)) = length (caps (default_caps (smc s1)))"
  using assms by (simp add: default_caps_with_cpu_def Let_def caps_update_at_caps)

theorem default_caps_with_cpu_pure_witness:
  "default_caps_with_cpu kvm_host dest_machine ''power8_v2.0-powerpc64-cpu'' =
   default_caps_with_cpu tcg_host incoming_higher ''power8_v2.0-powerpc64-cpu'' \<and>
   length (caps (default_caps_with_cpu kvm_host dest_machine ''power8_v2.0-powerpc64-cpu'')) = 8"
proof -
  have "default_caps (smc dest_machine) = default_caps (smc incoming_higher)"
    "max_compat_pvr dest_machine = max_compat_pvr incoming_higher"
    "ppc_type_check_compat kvm_host = ppc_type_check_compat tcg_host"
    "kvmppc_hpt_needs_host_contiguous_pages kvm_host =
     kvmppc_hpt_needs_host_contiguous_pages tcg_host"
    "qemu_getrampagesize kvm_host = qemu_getrampagesize tcg_host"
    by (simp_all add: incoming_higher_def tcg_host_def)
  from default_caps_with_cpu_pure [OF this, of "''power8_v2.0-powerpc64-cpu''"]
  have "default_caps_with_cpu kvm_host dest_machine ''power8_v2.0-powerpc64-cpu'' =
      default_caps_with_cpu tcg_host incoming_higher ''power8_v2.0-powerpc64-cpu''"
    and "length (caps (default_caps_with_cpu kvm_host dest_machine ''power8_v2.0-powerpc64-cpu''))
      = length (caps (default_caps (smc dest_machine)))"
    by blast+
  moreover have "length (caps (default_caps (smc dest_machine))) = 8"
    by (simp add: dest_machine_def)
  ultimately show ?thesis
    by simp
qed

text \<open>
  C5. \<^verbatim>\<open>spapr_caps_post_migration\<close> leaves the machine state as it found it, whether
  it returns 0 or \<^verbatim>\<open>-EINVAL\<close>: the default set, the effective set, the command-line
  flags and the incoming set are those of the state it was called on.
\<close>

theorem post_migration_frame:
  "snd (spapr_caps_post_migration h spapr) = spapr \<and>
   def (snd (spapr_caps_post_migration h spapr)) = def spapr \<and>
   eff (snd (spapr_caps_post_migration h spapr)) = eff spapr \<and>
   cmd_line_caps (snd (spapr_caps_post_migration h spapr)) = cmd_line_caps spapr \<and>
   mig (snd (spapr_caps_post_migration h spapr)) = mig spapr"
  by (simp add: post_migration_result)

subsection \<open>The apply functions\<close>

lemma vals_at_cfpc:
  "unat k < 3 \<Longrightarrow> vals_at cap_cfpc_possible k = Inr (vals cap_cfpc_possible ! unat k)"
  by (simp add: vals_at_def cap_cfpc_possible_def)

lemma vals_at_sbbc:
  "unat k < 3 \<Longrightarrow> vals_at cap_sbbc_possible k = Inr (vals cap_sbbc_possible ! unat k)"
  by (simp add: vals_at_def cap_sbbc_possible_def)

lemma vals_at_ibs:
  "unat k < 4 \<Longrightarrow> vals_at cap_ibs_possible k = Inr (vals cap_ibs_possible ! unat k)"
  by (simp add: vals_at_def cap_ibs_possible_def)

lemma ibs_above_host_level:
  assumes "kvm_enabled h" and "\<not> tcg_enabled h"
    and "unat (word_of_int (kvmppc_get_cap_safe_indirect_branch h) :: u8) < 4"
    and "val > word_of_int (kvmppc_get_cap_safe_indirect_branch h)"
  shows "\<exists>fmt. cap_safe_indirect_branch_apply h spapr val =
            Inr (Some (error_setg fmt
              [ArgStr (vals cap_ibs_possible !
                 unat (word_of_int (kvmppc_get_cap_safe_indirect_branch h) :: u8))]), [])"
proof -
  from assms(4) have "val \<noteq> 0" "val \<noteq> word_of_int (kvmppc_get_cap_safe_indirect_branch h)"
    by auto
  with assms(1-3) show ?thesis
    by (simp add: cap_safe_indirect_branch_apply_def Let_def vals_at_ibs)
qed

text \<open>
  C6 (amended). On a KVM host (\<^verbatim>\<open>kvm_enabled\<close>, not \<^verbatim>\<open>tcg_enabled\<close>) that reports a
  level within the label table: \<^verbatim>\<open>cap_safe_cache_apply\<close> (cfpc) and
  \<^verbatim>\<open>cap_safe_bounds_check_apply\<close> (sbbc) fail exactly when the requested level is above
  the host's, the error carries the label of the host's level, and a level at or below
  it passes. \<^verbatim>\<open>cap_safe_indirect_branch_apply\<close> (ibs) fails, again with the label of the
  host's level, when the level is \<^verbatim>\<open>workaround\<close> or is non-zero and differs from the
  host's level: every level above the host's fails, and so does a non-zero level below
  it; level 0 and the host's own level (other than \<^verbatim>\<open>workaround\<close>) pass. The text of
  the KVM messages ends with the label given.
\<close>

theorem kvm_level_checks:
  assumes "kvm_enabled h" and "\<not> tcg_enabled h"
  shows
    "(unat (word_of_int (kvmppc_get_cap_safe_cache h) :: u8) < 3 \<longrightarrow>
       cap_safe_cache_apply h spapr val =
         (if val > word_of_int (kvmppc_get_cap_safe_cache h) then
            Inr (Some (error_setg
              ''Requested safe cache capability level not supported by kvm, try cap-cfpc=%s''
              [ArgStr (vals cap_cfpc_possible !
                 unat (word_of_int (kvmppc_get_cap_safe_cache h) :: u8))]), [])
          else Inr (None, []))) \<and>
     (unat (word_of_int (kvmppc_get_cap_safe_bounds_check h) :: u8) < 3 \<longrightarrow>
       cap_safe_bounds_check_apply h spapr val =
         (if val > word_of_int (kvmppc_get_cap_safe_bounds_check h) then
            Inr (Some (error_setg
              ''Requested safe bounds check capability level not supported by kvm, try cap-sbbc=%s''
              [ArgStr (vals cap_sbbc_possible !
                 unat (word_of_int (kvmppc_get_cap_safe_bounds_check h) :: u8))]), [])
          else Inr (None, []))) \<and>
     (unat (word_of_int (kvmppc_get_cap_safe_indirect_branch h) :: u8) < 4 \<longrightarrow>
       cap_safe_indirect_branch_apply h spapr val =
         (if val = SPAPR_CAP_WORKAROUND then
            Inr (Some (error_setg
              ''Requested safe indirect branch capability level \"workaround\" not valid, try cap-ibs=%s''
              [ArgStr (vals cap_ibs_possible !
                 unat (word_of_int (kvmppc_get_cap_safe_indirect_branch h) :: u8))]), [])
          else if val \<noteq> 0 \<and> val \<noteq> word_of_int (kvmppc_get_cap_safe_indirect_branch h) then
            Inr (Some (error_setg
              ''Requested safe indirect branch capability level not supported by kvm, try cap-ibs=%s''
              [ArgStr (vals cap_ibs_possible !
                 unat (word_of_int (kvmppc_get_cap_safe_indirect_branch h) :: u8))]), [])
          else Inr (None, []))) \<and>
     (unat (word_of_int (kvmppc_get_cap_safe_indirect_branch h) :: u8) < 4 \<and>
      val > word_of_int (kvmppc_get_cap_safe_indirect_branch h) \<longrightarrow>
       (\<exists>fmt. cap_safe_indirect_branch_apply h spapr val =
          Inr (Some (error_setg fmt
            [ArgStr (vals cap_ibs_possible !
               unat (word_of_int (kvmppc_get_cap_safe_indirect_branch h) :: u8))]), []))) \<and>
     error_get_pretty (error_setg
        ''Requested safe cache capability level not supported by kvm, try cap-cfpc=%s''
        [ArgStr label]) =
       ''Requested safe cache capability level not supported by kvm, try cap-cfpc='' @ label \<and>
     error_get_pretty (error_setg
        ''Requested safe indirect branch capability level not supported by kvm, try cap-ibs=%s''
        [ArgStr label]) =
       ''Requested safe indirect branch capability level not supported by kvm, try cap-ibs=''
       @ label"
proof -
  have "unat (word_of_int (kvmppc_get_cap_safe_indirect_branch h) :: u8) < 4 \<and>
      val > word_of_int (kvmppc_get_cap_safe_indirect_branch h) \<longrightarrow>
       (\<exists>fmt. cap_safe_indirect_branch_apply h spapr val =
          Inr (Some (error_setg fmt
            [ArgStr (vals cap_ibs_possible !
               unat (word_of_int (kvmppc_get_cap_safe_indirect_branch h) :: u8))]), []))"
    using ibs_above_host_level [OF assms] by blast
  then show ?thesis
    using assms
    by (simp add: cap_safe_cache_apply_def cap_safe_bounds_check_apply_def
        cap_safe_indirect_branch_apply_def Let_def vals_at_cfpc vals_at_sbbc vals_at_ibs)
qed

theorem kvm_level_checks_witness:
  "cap_safe_cache_apply kvm_host dest_machine 2 =
     Inr (Some (error_setg
       ''Requested safe cache capability level not supported by kvm, try cap-cfpc=%s''
       [ArgStr ''workaround'']), []) \<and>
   cap_safe_cache_apply kvm_host dest_machine 1 = Inr (None, []) \<and>
   cap_safe_bounds_check_apply kvm_host dest_machine 2 =
     Inr (Some (error_setg
       ''Requested safe bounds check capability level not supported by kvm, try cap-sbbc=%s''
       [ArgStr ''workaround'']), []) \<and>
   cap_safe_indirect_branch_apply kvm_host dest_machine 3 = Inr (None, []) \<and>
   cap_safe_indirect_branch_apply kvm_host dest_machine 1 =
     Inr (Some (error_setg
       ''Requested safe indirect branch capability level \"workaround\" not valid, try cap-ibs=%s''
       [ArgStr ''fixed-ccd'']), []) \<and>
   (\<exists>fmt. cap_safe_indirect_branch_apply kvm_host_ibs dest_machine 3 =
      Inr (Some (error_setg fmt [ArgStr ''fixed-ibs'']), []))"
proof -
  have kvm: "kvm_enabled kvm_host" "\<not> tcg_enabled kvm_host"
    by (simp_all add: kvm_host_def)
  have kvm': "kvm_enabled kvm_host_ibs" "\<not> tcg_enabled kvm_host_ibs"
    by (simp_all add: kvm_host_def kvm_host_ibs_def)
  have lv: "kvmppc_get_cap_safe_cache kvm_host = 1"
    "kvmppc_get_cap_safe_bounds_check kvm_host = 1"
    "kvmppc_get_cap_safe_indirect_branch kvm_host = 3"
    "kvmppc_get_cap_safe_indirect_branch kvm_host_ibs = 2"
    by (simp_all add: kvm_host_def kvm_host_ibs_def)
  have "\<exists>fmt. cap_safe_indirect_branch_apply kvm_host_ibs dest_machine 3 =
      Inr (Some (error_setg fmt
        [ArgStr (vals cap_ibs_possible !
           unat (word_of_int (kvmppc_get_cap_safe_indirect_branch kvm_host_ibs) :: u8))]), [])"
    using kvm_level_checks [OF kvm', of dest_machine 3] by (simp add: lv)
  then have "\<exists>fmt. cap_safe_indirect_branch_apply kvm_host_ibs dest_machine 3 =
      Inr (Some (error_setg fmt [ArgStr ''fixed-ibs'']), [])"
    by (simp add: lv cap_ibs_possible_def)
  then show ?thesis
    using kvm_level_checks [OF kvm, of dest_machine 2] kvm_level_checks [OF kvm, of dest_machine 1]
      kvm_level_checks [OF kvm, of dest_machine 3]
    by (simp add: lv cap_cfpc_possible_def cap_sbbc_possible_def cap_ibs_possible_def
        SPAPR_CAP_WORKAROUND_def)
qed

text \<open>
  C6 as stated fails for ibs: on a KVM host whose level is 3 (fixed-ccd), the lower
  level 2 (fixed-ibs) is refused by the KVM check of \<^verbatim>\<open>cap_safe_indirect_branch_apply\<close>.
\<close>

theorem kvm_level_below_host_counterexample:
  "kvm_enabled kvm_host \<and> \<not> tcg_enabled kvm_host \<and>
   (2 :: u8) \<le> word_of_int (kvmppc_get_cap_safe_indirect_branch kvm_host) \<and>
   cap_safe_indirect_branch_apply kvm_host dest_machine 2 =
     Inr (Some (error_setg
       ''Requested safe indirect branch capability level not supported by kvm, try cap-ibs=%s''
       [ArgStr ''fixed-ccd'']), [])"
  by (simp add: kvm_host_def cap_safe_indirect_branch_apply_def vals_at_def
      cap_ibs_possible_def SPAPR_CAP_WORKAROUND_def)

text \<open>
  C9 (amended). For every registered capability other than hpt-max-page-size, the
  apply function returns without error and without warning at level 0, on any host.
  For hpt-max-page-size level 0 is below the minimum of 12 and the apply function sets
  the error "Require at least 4kiB hpt-max-page-size"; so \<^verbatim>\<open>spapr_caps_apply\<close> on a
  machine with every effective level 0 ends with that error, fatally.
\<close>

theorem apply_weakest_level:
  "(\<forall>i<SPAPR_CAP_NUM. i \<noteq> SPAPR_CAP_HPT_MAXPAGESIZE \<longrightarrow>
      apply_fn (capability_table ! i) h spapr 0 = Inr (None, [])) \<and>
   apply_fn (capability_table ! SPAPR_CAP_HPT_MAXPAGESIZE) h spapr 0 =
     Inr (Some (error_setg ''Require at least 4kiB hpt-max-page-size'' []), []) \<and>
   ((\<forall>i<SPAPR_CAP_NUM. caps (eff spapr) ! i = 0) \<longrightarrow>
      spapr_caps_apply h spapr =
        Inl (ErrorFatal (error_setg ''Require at least 4kiB hpt-max-page-size'' [])))"
proof (intro conjI allI impI)
  fix i
  assume "i < SPAPR_CAP_NUM" "i \<noteq> SPAPR_CAP_HPT_MAXPAGESIZE"
  then have "i = 0 \<or> i = 1 \<or> i = 2 \<or> i = 3 \<or> i = 4 \<or> i = 5 \<or> i = 7"
    unfolding SPAPR_CAP_NUM_eq SPAPR_CAP_HPT_MAXPAGESIZE_def by arith
  then show "apply_fn (capability_table ! i) h spapr 0 = Inr (None, [])"
    by (auto simp: capability_table_def cap_htm_apply_def cap_vsx_apply_def cap_dfp_apply_def
        cap_safe_cache_apply_def cap_safe_bounds_check_apply_def
        cap_safe_indirect_branch_apply_def cap_nested_kvm_hv_apply_def
        SPAPR_CAP_WORKAROUND_def Let_def)
next
  show "apply_fn (capability_table ! SPAPR_CAP_HPT_MAXPAGESIZE) h spapr 0 =
     Inr (Some (error_setg ''Require at least 4kiB hpt-max-page-size'' []), [])"
    by (simp add: capability_table_def SPAPR_CAP_HPT_MAXPAGESIZE_def
        cap_hpt_maxpagesize_apply_def)
next
  assume z: "\<forall>i<SPAPR_CAP_NUM. caps (eff spapr) ! i = 0"
  have up: "[0..<SPAPR_CAP_NUM] = [0, 1, 2, 3, 4, 5, 6, 7]"
    by (simp add: SPAPR_CAP_NUM_eq upt_rec)
  have lv: "caps (eff spapr) ! 0 = 0" "caps (eff spapr) ! Suc 0 = 0" "caps (eff spapr) ! 2 = 0"
    "caps (eff spapr) ! 3 = 0" "caps (eff spapr) ! 4 = 0" "caps (eff spapr) ! 5 = 0"
    "caps (eff spapr) ! 6 = 0"
    using z by (simp_all add: SPAPR_CAP_NUM_eq)
  show "spapr_caps_apply h spapr =
      Inl (ErrorFatal (error_setg ''Require at least 4kiB hpt-max-page-size'' []))"
    by (simp add: spapr_caps_apply_def up lv capability_table_def cap_htm_apply_def
        cap_vsx_apply_def cap_dfp_apply_def cap_safe_cache_apply_def
        cap_safe_bounds_check_apply_def cap_safe_indirect_branch_apply_def
        cap_hpt_maxpagesize_apply_def SPAPR_CAP_WORKAROUND_def Let_def)
qed

theorem apply_weakest_level_witness:
  "apply_fn (capability_table ! SPAPR_CAP_CFPC) tcg_host dest_machine 0 = Inr (None, []) \<and>
   apply_fn (capability_table ! SPAPR_CAP_CFPC) kvm_host dest_machine 0 = Inr (None, []) \<and>
   apply_fn (capability_table ! SPAPR_CAP_HTM) tcg_host dest_machine 0 = Inr (None, []) \<and>
   spapr_caps_apply tcg_host zero_machine =
     Inl (ErrorFatal (error_setg ''Require at least 4kiB hpt-max-page-size'' []))"
proof -
  have "SPAPR_CAP_CFPC < SPAPR_CAP_NUM" "SPAPR_CAP_CFPC \<noteq> SPAPR_CAP_HPT_MAXPAGESIZE"
    "SPAPR_CAP_HTM < SPAPR_CAP_NUM" "SPAPR_CAP_HTM \<noteq> SPAPR_CAP_HPT_MAXPAGESIZE"
    by (simp_all add: SPAPR_CAP_NUM_eq SPAPR_CAP_CFPC_def SPAPR_CAP_HTM_def
        SPAPR_CAP_HPT_MAXPAGESIZE_def)
  moreover have "\<forall>i<SPAPR_CAP_NUM. caps (eff zero_machine) ! i = 0"
    by (simp add: zero_machine_def SPAPR_CAP_NUM_eq eval_nat_numeral All_less_Suc)
  ultimately show ?thesis
    using apply_weakest_level [of tcg_host dest_machine]
      apply_weakest_level [of kvm_host dest_machine]
      apply_weakest_level [of tcg_host zero_machine]
    by blast
qed

text \<open>
  C9 as stated fails for hpt-max-page-size: at level 0 its apply function sets an
  error, under TCG and under KVM.
\<close>

theorem apply_weakest_level_hpt_counterexample:
  "SPAPR_CAP_HPT_MAXPAGESIZE < SPAPR_CAP_NUM \<and>
   apply_fn (capability_table ! SPAPR_CAP_HPT_MAXPAGESIZE) tcg_host dest_machine 0 =
     Inr (Some (error_setg ''Require at least 4kiB hpt-max-page-size'' []), []) \<and>
   apply_fn (capability_table ! SPAPR_CAP_HPT_MAXPAGESIZE) kvm_host dest_machine 0 =
     Inr (Some (error_setg ''Require at least 4kiB hpt-max-page-size'' []), [])"
  by (simp add: capability_table_def SPAPR_CAP_HPT_MAXPAGESIZE_def SPAPR_CAP_NUM_eq
      cap_hpt_maxpagesize_apply_def)

subsection \<open>The setters\<close>

lemma strcmp_eq_0_iff: "strcmp a b = 0 \<longleftrightarrow> a = b"
  by (induction a b rule: strcmp.induct) auto

lemma ctz_loop_power:
  "k < n \<Longrightarrow> n \<le> 64 \<Longrightarrow> ctz_loop n (2 ^ k :: u64) = k"
proof (induction n arbitrary: k)
  case 0
  then show ?case by simp
next
  case (Suc n)
  show ?case
  proof (cases k)
    case 0
    then show ?thesis by simp
  next
    case (Suc k')
    with Suc.prems have k': "k' < n" "n \<le> 64" "Suc k' < 64" by simp_all
    have "drop_bit 1 (2 ^ Suc k' :: u64) = 2 ^ k'"
      using k'(3) by (simp add: drop_bit_exp_eq del: power_Suc)
    moreover have "\<not> bit (2 ^ Suc k' :: u64) 0"
      by (simp add: bit_simps)
    ultimately show ?thesis
      using Suc.IH [OF k'(1,2)] Suc by simp
  qed
qed

lemma ctz64_power: "k < 64 \<Longrightarrow> ctz64 (2 ^ k) = int k"
  by (simp add: ctz64_def ctz_loop_power)

lemma set_string_loop_none:
  assumes "num p \<le> 255"
    and "\<forall>j. unat i \<le> j \<and> int j < num p \<longrightarrow> strcasecmp val (vals p ! j) \<noteq> 0"
  shows "spapr_cap_set_string_loop p val i = Some None"
  using assms
proof (induction "nat (num p) - unat i" arbitrary: i)
  case 0
  have ui: "uint i = int (unat i)" by (rule uint_nat)
  from 0 have "\<not> uint i < num p" unfolding ui by arith
  then show ?case by (subst spapr_cap_set_string_loop.simps) simp
next
  case (Suc n)
  have ui: "uint i = int (unat i)" by (rule uint_nat)
  from Suc.hyps(2) have lt: "uint i < num p" unfolding ui by arith
  with Suc.prems(1) have "unat i < 255" unfolding ui by arith
  then have step: "unat (i + 1) = unat i + 1"
    by (simp add: unat_word_ariths)
  have "n = nat (num p) - unat (i + 1)" using Suc.hyps(2) step by simp
  moreover have "\<forall>j. unat (i + 1) \<le> j \<and> int j < num p \<longrightarrow> strcasecmp val (vals p ! j) \<noteq> 0"
    using Suc.prems(2) step by simp
  ultimately have "spapr_cap_set_string_loop p val (i + 1) = Some None"
    using Suc.hyps(1) Suc.prems(1) by blast
  moreover have "strcasecmp val (vals p ! unat i) \<noteq> 0"
    using Suc.prems(2) lt unfolding ui by simp
  ultimately show ?case
    using lt by (subst spapr_cap_set_string_loop.simps) simp
qed

lemma set_string_loop_some:
  assumes "num p \<le> 255"
    and "unat i \<le> j" "int j < num p"
    and "strcasecmp val (vals p ! j) = 0"
    and "\<forall>j'. unat i \<le> j' \<and> j' < j \<longrightarrow> strcasecmp val (vals p ! j') \<noteq> 0"
  shows "spapr_cap_set_string_loop p val i = Some (Some (of_nat j))"
  using assms
proof (induction "j - unat i" arbitrary: i)
  case 0
  have ui: "uint i = int (unat i)" by (rule uint_nat)
  from 0 have j: "j = unat i" by simp
  then have "uint i < num p" "strcasecmp val (vals p ! unat i) = 0" "of_nat j = i"
    using 0 unfolding ui by simp_all
  then show ?case
    by (subst spapr_cap_set_string_loop.simps) simp
next
  case (Suc n)
  have ui: "uint i = int (unat i)" by (rule uint_nat)
  from Suc have lt: "unat i < j" by simp
  with Suc.prems have "unat i < 255" by simp
  then have step: "unat (i + 1) = unat i + 1"
    by (simp add: unat_word_ariths)
  have "n = j - unat (i + 1)" using Suc.hyps(2) step by simp
  moreover have "unat (i + 1) \<le> j" using lt step by simp
  moreover have "\<forall>j'. unat (i + 1) \<le> j' \<and> j' < j \<longrightarrow> strcasecmp val (vals p ! j') \<noteq> 0"
    using Suc.prems(5) step by simp
  ultimately have "spapr_cap_set_string_loop p val (i + 1) = Some (Some (of_nat j))"
    using Suc.hyps(1) Suc.prems(1,3,4) by blast
  moreover have "strcasecmp val (vals p ! unat i) \<noteq> 0"
    using Suc.prems(5) lt by simp
  moreover have "uint i < num p" using lt Suc.prems(3) ui by linarith
  ultimately show ?case
    by (subst spapr_cap_set_string_loop.simps) simp
qed

lemma is_power_of_2_power: "k < 64 \<Longrightarrow> is_power_of_2 (2 ^ k)"
  by (auto simp: is_power_of_2_def)

lemma not_power_of_2_three: "\<not> is_power_of_2 3"
proof
  assume "is_power_of_2 3"
  then obtain k where k: "(3 :: u64) = 2 ^ k"
    by (auto simp: is_power_of_2_def)
  show False
  proof (cases k)
    case 0
    with k show False by simp
  next
    case (Suc k')
    have "even (2 * 2 ^ k' :: u64)" by (rule dvd_triv_left)
    with k Suc have "even (3 :: u64)" by simp
    then show False by simp
  qed
qed

text \<open>
  C7 (amended). \<^verbatim>\<open>spapr_cap_set_pagesize\<close>, given a size that is not an exact power of
  two, sets the error "cap-<name> must be a power of 2" and leaves the machine state
  as it was. Given \<^verbatim>\<open>2 ^ k\<close> it sets no error, whatever \<^verbatim>\<open>k\<close> is: it sets the
  command-line flag of the capability and stores \<^verbatim>\<open>k\<close> as its effective level. An
  exponent below 12 is refused only by \<^verbatim>\<open>cap_hpt_maxpagesize_apply\<close>, when the
  capabilities are applied.
\<close>

theorem set_pagesize_spec:
  assumes "visit_type_size v = Inr pagesize"
  shows "(\<not> is_power_of_2 pagesize \<longrightarrow>
            spapr_cap_set_pagesize cap v spapr =
              (Some (error_setg ''cap-%s must be a power of 2'' [ArgStr (name cap)]), spapr)) \<and>
         (\<forall>k<64. pagesize = 2 ^ k \<longrightarrow>
            spapr_cap_set_pagesize cap v spapr =
              (None,
               spapr\<lparr>cmd_line_caps := (cmd_line_caps spapr)[index cap := True],
                     eff := caps_update_at (eff spapr) (index cap) (of_nat k)\<rparr>)) \<and>
         (\<forall>val<12. cap_hpt_maxpagesize_apply h spapr val =
            Inr (Some (error_setg ''Require at least 4kiB hpt-max-page-size'' []), []))"
  using assms
  by (simp add: spapr_cap_set_pagesize_def is_power_of_2_power ctz64_power
      cap_hpt_maxpagesize_apply_def)

theorem set_pagesize_spec_witness:
  "spapr_cap_set_pagesize (capability_table ! SPAPR_CAP_HPT_MAXPAGESIZE) (visitor_of_size 3)
     dest_machine =
     (Some (error_setg ''cap-%s must be a power of 2'' [ArgStr ''hpt-max-page-size'']),
      dest_machine) \<and>
   spapr_cap_set_pagesize (capability_table ! SPAPR_CAP_HPT_MAXPAGESIZE)
     (visitor_of_size 65536) dest_machine =
     (None,
      dest_machine\<lparr>cmd_line_caps := [False, False, False, False, False, False, True, False],
                   eff := \<lparr>caps = [0, 1, 1, 1, 1, 0, 16, 0]\<rparr>\<rparr>) \<and>
   cap_hpt_maxpagesize_apply kvm_host dest_machine 10 =
     Inr (Some (error_setg ''Require at least 4kiB hpt-max-page-size'' []), [])"
proof -
  have v: "visit_type_size (visitor_of_size 3) = Inr 3"
    "visit_type_size (visitor_of_size 65536) = Inr (2 ^ 16)"
    by (simp_all add: visitor_of_size_def)
  have cap: "name (capability_table ! SPAPR_CAP_HPT_MAXPAGESIZE) = ''hpt-max-page-size''"
    "index (capability_table ! SPAPR_CAP_HPT_MAXPAGESIZE) = 6"
    by (simp_all add: capability_table_def SPAPR_CAP_HPT_MAXPAGESIZE_def)
  have st: "dest_machine\<lparr>cmd_line_caps := (cmd_line_caps dest_machine)[6 := True],
                eff := caps_update_at (eff dest_machine) 6 16\<rparr> =
      dest_machine\<lparr>cmd_line_caps := [False, False, False, False, False, False, True, False],
                   eff := \<lparr>caps = [0, 1, 1, 1, 1, 0, 16, 0]\<rparr>\<rparr>"
    by (simp add: dest_machine_def caps_update_at_def)
  have sixteen: "(16::nat) < 64" "(10::u8) < 12"
    by simp_all
  have "spapr_cap_set_pagesize (capability_table ! SPAPR_CAP_HPT_MAXPAGESIZE)
      (visitor_of_size 3) dest_machine =
      (Some (error_setg ''cap-%s must be a power of 2''
         [ArgStr (name (capability_table ! SPAPR_CAP_HPT_MAXPAGESIZE))]), dest_machine)"
    using set_pagesize_spec [OF v(1), of "capability_table ! SPAPR_CAP_HPT_MAXPAGESIZE"
        dest_machine kvm_host] not_power_of_2_three
    by blast
  moreover have "spapr_cap_set_pagesize (capability_table ! SPAPR_CAP_HPT_MAXPAGESIZE)
      (visitor_of_size 65536) dest_machine =
      (None,
       dest_machine\<lparr>cmd_line_caps := (cmd_line_caps dest_machine)
           [index (capability_table ! SPAPR_CAP_HPT_MAXPAGESIZE) := True],
         eff := caps_update_at (eff dest_machine)
           (index (capability_table ! SPAPR_CAP_HPT_MAXPAGESIZE)) (of_nat 16)\<rparr>)"
    using set_pagesize_spec [OF v(2), of "capability_table ! SPAPR_CAP_HPT_MAXPAGESIZE"
        dest_machine kvm_host] sixteen(1)
    by blast
  moreover have "cap_hpt_maxpagesize_apply kvm_host dest_machine 10 =
      Inr (Some (error_setg ''Require at least 4kiB hpt-max-page-size'' []), [])"
    using set_pagesize_spec [OF v(1), of "capability_table ! SPAPR_CAP_HPT_MAXPAGESIZE"
        dest_machine kvm_host] sixteen(2)
    by blast
  ultimately show ?thesis
    by (simp add: cap st)
qed

text \<open>
  C7 as stated fails for an exponent below the minimum: setting hpt-max-page-size to
  1024 sets no error, changes the effective level from 16 to 10 and sets the flag;
  level 10 is refused later, by the apply function.
\<close>

theorem set_pagesize_below_minimum_counterexample:
  "fst (spapr_cap_set_pagesize (capability_table ! SPAPR_CAP_HPT_MAXPAGESIZE)
          (visitor_of_size 1024) dest_machine) = None \<and>
   caps (eff dest_machine) ! SPAPR_CAP_HPT_MAXPAGESIZE = 16 \<and>
   caps (eff (snd (spapr_cap_set_pagesize (capability_table ! SPAPR_CAP_HPT_MAXPAGESIZE)
          (visitor_of_size 1024) dest_machine))) ! SPAPR_CAP_HPT_MAXPAGESIZE = 10 \<and>
   \<not> cmd_line_caps dest_machine ! SPAPR_CAP_HPT_MAXPAGESIZE \<and>
   cmd_line_caps (snd (spapr_cap_set_pagesize (capability_table ! SPAPR_CAP_HPT_MAXPAGESIZE)
          (visitor_of_size 1024) dest_machine)) ! SPAPR_CAP_HPT_MAXPAGESIZE \<and>
   cap_hpt_maxpagesize_apply kvm_host dest_machine 10 =
     Inr (Some (error_setg ''Require at least 4kiB hpt-max-page-size'' []), [])"
proof -
  have p: "is_power_of_2 1024" using is_power_of_2_power [of 10] by simp
  have c: "ctz64 1024 = 10" using ctz64_power [of 10] by simp
  show ?thesis
    by (simp add: spapr_cap_set_pagesize_def visitor_of_size_def p c capability_table_def
        SPAPR_CAP_HPT_MAXPAGESIZE_def dest_machine_def caps_update_at_def
        cap_hpt_maxpagesize_apply_def)
qed

lemma string_caps_wellformed:
  "\<forall>cap\<in>set capability_table. set_fn cap = Spapr_cap_set_string \<longrightarrow>
     (\<exists>p. possible cap = Some p \<and> num p = int (length (vals p)) \<and> length (vals p) \<le> 255)"
  by (simp add: capability_table_def cap_cfpc_possible_def cap_sbbc_possible_def
      cap_ibs_possible_def)

lemma labels_distinct:
  "distinct (map (map tolower) (vals cap_cfpc_possible)) \<and>
   distinct (map (map tolower) (vals cap_sbbc_possible)) \<and>
   distinct (map (map tolower) (vals cap_ibs_possible))"
  by code_simp

lemma cfpc_descriptor:
  "possible (capability_table ! SPAPR_CAP_CFPC) = Some cap_cfpc_possible"
  "name (capability_table ! SPAPR_CAP_CFPC) = ''cfpc''"
  "index (capability_table ! SPAPR_CAP_CFPC) = 3"
  "set_fn (capability_table ! SPAPR_CAP_CFPC) = Spapr_cap_set_string"
  by (simp_all add: capability_table_def SPAPR_CAP_CFPC_def)

lemma cfpc_possible_ok:
  "num cap_cfpc_possible = int (length (vals cap_cfpc_possible))"
  "length (vals cap_cfpc_possible) \<le> 255"
  "length (vals cap_cfpc_possible) = 3"
  by (simp_all add: cap_cfpc_possible_def)

lemma strcasecmp_examples:
  "strcasecmp ''FiXed'' ''broken'' \<noteq> 0 \<and>
   strcasecmp ''FiXed'' ''workaround'' \<noteq> 0 \<and>
   strcasecmp ''FiXed'' ''fixed'' = 0 \<and>
   strcasecmp ''bogus'' ''broken'' \<noteq> 0 \<and>
   strcasecmp ''bogus'' ''workaround'' \<noteq> 0 \<and>
   strcasecmp ''bogus'' ''fixed'' \<noteq> 0"
  by code_simp

text \<open>
  C8. For a descriptor with a table of at most 255 labels (\<^verbatim>\<open>num\<close> being their
  number) and a visitor that holds the string \<^verbatim>\<open>val\<close>: if \<^verbatim>\<open>val\<close> is "?" then
  \<^verbatim>\<open>spapr_cap_set_string\<close> returns with an error whose text is the help text of the
  table, and the machine state is as before; if \<^verbatim>\<open>val\<close> matches no label, ignoring
  case, it returns with the error "Invalid capability mode ..." and the state as
  before; if \<^verbatim>\<open>val\<close> matches the label at index \<^verbatim>\<open>i\<close>, ignoring case, and none before,
  it returns without error, with the command-line flag of the capability set and
  \<^verbatim>\<open>i\<close> stored as its effective level.
\<close>

theorem set_string_spec:
  assumes "possible cap = Some p"
    and "num p = int (length (vals p))"
    and "length (vals p) \<le> 255"
    and "visit_type_str v = Inr val"
  shows
    "(val = ''?'' \<longrightarrow>
        spapr_cap_set_string cap v spapr =
          Some (Inr (Some (error_setg ''%s'' [ArgStr (help_text p)]), spapr)) \<and>
        error_get_pretty (error_setg ''%s'' [ArgStr (help_text p)]) = help_text p) \<and>
     (val \<noteq> ''?'' \<and> (\<forall>i<length (vals p). strcasecmp val (vals p ! i) \<noteq> 0) \<longrightarrow>
        spapr_cap_set_string cap v spapr =
          Some (Inr (Some (error_setg ''Invalid capability mode \"%s\" for cap-%s''
                             [ArgStr val, ArgStr (name cap)]), spapr))) \<and>
     (\<forall>i<length (vals p).
        val \<noteq> ''?'' \<and> strcasecmp val (vals p ! i) = 0 \<and>
        (\<forall>j<i. strcasecmp val (vals p ! j) \<noteq> 0) \<longrightarrow>
        spapr_cap_set_string cap v spapr =
          Some (Inr (None,
            spapr\<lparr>cmd_line_caps := (cmd_line_caps spapr)[index cap := True],
                  eff := caps_update_at (eff spapr) (index cap) (of_nat i)\<rparr>)))"
proof (intro conjI impI allI)
  assume "val = ''?''"
  then show "spapr_cap_set_string cap v spapr =
      Some (Inr (Some (error_setg ''%s'' [ArgStr (help_text p)]), spapr))"
    using assms by (simp add: spapr_cap_set_string_def)
next
  show "error_get_pretty (error_setg ''%s'' [ArgStr (help_text p)]) = help_text p"
    by simp
next
  assume a: "val \<noteq> ''?'' \<and> (\<forall>i<length (vals p). strcasecmp val (vals p ! i) \<noteq> 0)"
  have n: "num p \<le> 255" using assms(2,3) by simp
  have "\<forall>j. unat (0 :: u8) \<le> j \<and> int j < num p \<longrightarrow> strcasecmp val (vals p ! j) \<noteq> 0"
    using a assms(2) by simp
  from set_string_loop_none [OF n this] a assms(1,4)
  show "spapr_cap_set_string cap v spapr =
      Some (Inr (Some (error_setg ''Invalid capability mode \"%s\" for cap-%s''
                         [ArgStr val, ArgStr (name cap)]), spapr))"
    by (simp add: spapr_cap_set_string_def strcmp_eq_0_iff)
next
  fix i
  assume i: "i < length (vals p)"
    and a: "val \<noteq> ''?'' \<and> strcasecmp val (vals p ! i) = 0 \<and>
        (\<forall>j<i. strcasecmp val (vals p ! j) \<noteq> 0)"
  have n: "num p \<le> 255" using assms(2,3) by simp
  have "spapr_cap_set_string_loop p val 0 = Some (Some (of_nat i))"
    using set_string_loop_some [OF n, of 0 i val] i a assms(2) by simp
  with a assms(1,4)
  show "spapr_cap_set_string cap v spapr =
      Some (Inr (None,
        spapr\<lparr>cmd_line_caps := (cmd_line_caps spapr)[index cap := True],
              eff := caps_update_at (eff spapr) (index cap) (of_nat i)\<rparr>))"
    by (simp add: spapr_cap_set_string_def strcmp_eq_0_iff)
qed

theorem set_string_spec_witness:
  "spapr_cap_set_string (capability_table ! SPAPR_CAP_CFPC) (visitor_of_str ''?'') dest_machine =
     Some (Inr (Some (error_setg ''%s'' [ArgStr (help_text cap_cfpc_possible)]), dest_machine)) \<and>
   spapr_cap_set_string (capability_table ! SPAPR_CAP_CFPC) (visitor_of_str ''bogus'')
     dest_machine =
     Some (Inr (Some (error_setg ''Invalid capability mode \"%s\" for cap-%s''
                        [ArgStr ''bogus'', ArgStr ''cfpc'']), dest_machine)) \<and>
   spapr_cap_set_string (capability_table ! SPAPR_CAP_CFPC) (visitor_of_str ''FiXed'')
     dest_machine =
     Some (Inr (None,
       dest_machine\<lparr>cmd_line_caps := [False, False, False, True, False, False, False, False],
                    eff := \<lparr>caps = [0, 1, 1, 2, 1, 0, 16, 0]\<rparr>\<rparr>))"
proof -
  have v: "visit_type_str (visitor_of_str ''?'') = Inr ''?''"
    "visit_type_str (visitor_of_str ''bogus'') = Inr ''bogus''"
    "visit_type_str (visitor_of_str ''FiXed'') = Inr ''FiXed''"
    by (simp_all add: visitor_of_str_def)
  have nomatch: "''bogus'' \<noteq> ''?'' \<and>
      (\<forall>i<length (vals cap_cfpc_possible). strcasecmp ''bogus'' (vals cap_cfpc_possible ! i) \<noteq> 0)"
    by (simp add: cap_cfpc_possible_def strcasecmp_examples eval_nat_numeral All_less_Suc)
  have match: "2 < length (vals cap_cfpc_possible)"
    "''FiXed'' \<noteq> ''?'' \<and> strcasecmp ''FiXed'' (vals cap_cfpc_possible ! 2) = 0 \<and>
      (\<forall>j<2. strcasecmp ''FiXed'' (vals cap_cfpc_possible ! j) \<noteq> 0)"
    by (simp_all add: cap_cfpc_possible_def strcasecmp_examples eval_nat_numeral All_less_Suc)
  have st: "dest_machine\<lparr>cmd_line_caps := (cmd_line_caps dest_machine)[3 := True],
                eff := caps_update_at (eff dest_machine) 3 2\<rparr> =
      dest_machine\<lparr>cmd_line_caps := [False, False, False, True, False, False, False, False],
                   eff := \<lparr>caps = [0, 1, 1, 2, 1, 0, 16, 0]\<rparr>\<rparr>"
    by (simp add: dest_machine_def caps_update_at_def)
  have "spapr_cap_set_string (capability_table ! SPAPR_CAP_CFPC) (visitor_of_str ''?'')
      dest_machine =
      Some (Inr (Some (error_setg ''%s'' [ArgStr (help_text cap_cfpc_possible)]), dest_machine))"
    using set_string_spec [OF cfpc_descriptor(1) cfpc_possible_ok(1,2) v(1), of dest_machine]
    by blast
  moreover have "spapr_cap_set_string (capability_table ! SPAPR_CAP_CFPC)
      (visitor_of_str ''bogus'') dest_machine =
      Some (Inr (Some (error_setg ''Invalid capability mode \"%s\" for cap-%s''
         [ArgStr ''bogus'', ArgStr (name (capability_table ! SPAPR_CAP_CFPC))]), dest_machine))"
    using set_string_spec [OF cfpc_descriptor(1) cfpc_possible_ok(1,2) v(2), of dest_machine]
      nomatch
    by blast
  moreover have "spapr_cap_set_string (capability_table ! SPAPR_CAP_CFPC)
      (visitor_of_str ''FiXed'') dest_machine =
      Some (Inr (None,
        dest_machine\<lparr>cmd_line_caps := (cmd_line_caps dest_machine)
            [index (capability_table ! SPAPR_CAP_CFPC) := True],
          eff := caps_update_at (eff dest_machine)
            (index (capability_table ! SPAPR_CAP_CFPC)) (of_nat 2)\<rparr>))"
    using set_string_spec [OF cfpc_descriptor(1) cfpc_possible_ok(1,2) v(3), of dest_machine]
      match
    by blast
  ultimately show ?thesis
    by (simp add: cfpc_descriptor st)
qed

subsection \<open>The page-size filter\<close>

text \<open>
  C10. Whenever the callback allows a candidate, the candidate exponent is at most the
  configured maximum and equals the segment exponent or 24. Under the asserted
  precondition that the candidate exponent is at least the segment exponent, the
  callback allows exactly those candidates, and denies every candidate above the
  maximum and every candidate that differs from the segment exponent and from 24.
\<close>

theorem spapr_pagesize_cb_spec:
  "(spapr_pagesize_cb maxshift seg_pshift pshift = Inr True \<longrightarrow>
      pshift \<le> maxshift \<and> (pshift = seg_pshift \<or> pshift = 24)) \<and>
   (seg_pshift \<le> pshift \<longrightarrow>
      (spapr_pagesize_cb maxshift seg_pshift pshift = Inr True \<longleftrightarrow>
         pshift \<le> maxshift \<and> (pshift = seg_pshift \<or> pshift = 24)) \<and>
      (maxshift < pshift \<longrightarrow> spapr_pagesize_cb maxshift seg_pshift pshift = Inr False) \<and>
      (pshift \<noteq> seg_pshift \<and> pshift \<noteq> 24 \<longrightarrow>
         spapr_pagesize_cb maxshift seg_pshift pshift = Inr False))"
  by (auto simp: spapr_pagesize_cb_def)

theorem spapr_pagesize_cb_spec_witness:
  "spapr_pagesize_cb 24 12 24 = Inr True \<and>
   spapr_pagesize_cb 16 12 24 = Inr False \<and>
   spapr_pagesize_cb 34 12 16 = Inr False \<and>
   spapr_pagesize_cb 16 16 16 = Inr True"
  using spapr_pagesize_cb_spec [of 24 12 24] spapr_pagesize_cb_spec [of 16 12 24]
    spapr_pagesize_cb_spec [of 34 12 16] spapr_pagesize_cb_spec [of 16 16 16]
  by simp

end
